theory Spec2Isabelle
  imports Complex_Main
begin

section \<open>Conventions of the embedding\<close>

text \<open>
  The program is JavaScript. Its numbers are modelled as exact reals; the rounding of
  IEEE doubles is not modelled, but the VWAP section is stated for any arithmetic. A value
  that may be \<^verbatim>\<open>null\<close> or \<^verbatim>\<open>undefined\<close> is an \<open>option\<close>. The two trade fields that the code itself sanity-checks,
  \<^verbatim>\<open>entryPrice\<close> and \<^verbatim>\<open>shares\<close>, keep the distinction between an absent
  value, a number that is not finite and a finite number. Wall-clock readings
  (\<^verbatim>\<open>Date.now()\<close>, \<^verbatim>\<open>new Date().toISOString()\<close>) and the random part of a
  fresh trade id are inputs of the operation that reads them; time stamps are kept as
  milliseconds.
\<close>

section \<open>Session VWAP (indicators/vwap.js)\<close>

text \<open>
  The source is the text of indicators/vwap.js in src/src/index.js (lines 361 to 385).
  The arithmetic of the numbers is a parameter of this section, so that the fallback result
  does not depend on how doubles round: \<open>realArith\<close> is the exact arithmetic used in the
  rest of the theory, and any rounding arithmetic is another instance.
\<close>

record 'a arith =
  fadd :: "'a \<Rightarrow> 'a \<Rightarrow> 'a"
  fmul :: "'a \<Rightarrow> 'a \<Rightarrow> 'a"
  fdiv :: "'a \<Rightarrow> 'a \<Rightarrow> 'a"
  fzero :: 'a
  fthree :: 'a
  fcount :: "nat \<Rightarrow> 'a"

definition realArith :: "real arith" where
  "realArith = \<lparr>fadd = (+), fmul = (*), fdiv = (/), fzero = 0, fthree = 3, fcount = real\<rparr>"

text \<open>A bar; \<open>volume = None\<close> stands for a volume that is not a finite number.\<close>

record 'a candle =
  high :: 'a
  low :: 'a
  close :: 'a
  volume :: "'a option"

record 'a vwap_acc =
  pv :: 'a
  v :: 'a
  tpSum :: 'a
  n :: nat

definition vwap_init :: "'a arith \<Rightarrow> 'a vwap_acc" where
  "vwap_init A = \<lparr>pv = fzero A, v = fzero A, tpSum = fzero A, n = 0\<rparr>"

text \<open>One iteration of the \<^verbatim>\<open>for (const c of candles)\<close> loop.\<close>

definition vwap_step :: "'a arith \<Rightarrow> 'a vwap_acc \<Rightarrow> 'a candle \<Rightarrow> 'a vwap_acc" where
  "vwap_step A a c =
     (let tp = fdiv A (fadd A (fadd A (high c) (low c)) (close c)) (fthree A);
          vol = (case volume c of Some x \<Rightarrow> x | None \<Rightarrow> fzero A)
      in \<lparr>pv = fadd A (pv a) (fmul A tp vol), v = fadd A (v a) vol,
          tpSum = fadd A (tpSum a) tp, n = n a + 1\<rparr>)"

definition computeSessionVwap :: "'a arith \<Rightarrow> 'a candle list \<Rightarrow> 'a option" where
  "computeSessionVwap A candles =
     (if candles = [] then None
      else let a = foldl (vwap_step A) (vwap_init A) candles
           in if v a = fzero A
              then (if n a \<noteq> 0 then Some (fdiv A (tpSum a) (fcount A (n a))) else None)
              else Some (fdiv A (pv a) (v a)))"

text \<open>
  The specification's words: the typical price (high + low + close) / 3 and its unweighted
  arithmetic mean, the sum taken in the order of the bars.
\<close>

definition typicalPrice :: "'a arith \<Rightarrow> 'a candle \<Rightarrow> 'a" where
  "typicalPrice A c = fdiv A (fadd A (fadd A (high c) (low c)) (close c)) (fthree A)"

definition unweightedMean :: "'a arith \<Rightarrow> 'a candle list \<Rightarrow> 'a" where
  "unweightedMean A cs =
     fdiv A (foldl (fadd A) (fzero A) (map (typicalPrice A) cs)) (fcount A (length cs))"

section \<open>Ledger (paper_trading/ledger.js)\<close>

datatype side = UP | DOWN
datatype phase = EARLY | MID | LATE
datatype status = OPEN | CLOSED
datatype jsnum = Absent | NonFinite | Fin real
datatype io_error = WriteFailed

record trade =
  tradeId :: string
  timestamp :: int
  marketSlug :: string
  side :: side
  instrument :: string
  entryPrice :: jsnum
  shares :: jsnum
  contractSize :: real
  status :: "status option"
  entryTime :: int
  exitPrice :: "real option"
  exitTime :: "int option"
  pnl :: real
  entryPhase :: phase
  sideInferred :: "bool option"
  exitReason :: "string option"
  entryReason :: "string option"

record summary =
  totalTrades :: nat
  wins :: nat
  losses :: nat
  totalPnL :: real
  winRate :: real

record ledger =
  trades :: "trade list"
  summary :: summary

text \<open>
  The module state of ledger.js (\<^verbatim>\<open>currentLedger\<close>), the file it persists to, and the
  state of the one \<^verbatim>\<open>Trader\<close> instance. \<open>tradesFile = None\<close> stands for a missing or
  unparsable trades.json; \<open>writable\<close> says whether \<^verbatim>\<open>fs.writeFileSync\<close> succeeds;
  \<open>consoleErrors\<close> counts the calls of \<^verbatim>\<open>console.error\<close>.
\<close>

record world =
  currentLedger :: "ledger option"
  tradesFile :: "ledger option"
  writable :: bool
  consoleErrors :: nat
  openTrade :: "trade option"
  lastFlipAtMs :: int

definition defaultLedger :: ledger where
  "defaultLedger =
     \<lparr>trades = [],
      summary = \<lparr>totalTrades = 0, wins = 0, losses = 0, totalPnL = 0, winRate = 0\<rparr>\<rparr>"

definition loadLedger :: "world \<Rightarrow> ledger" where
  "loadLedger w = (case tradesFile w of Some l \<Rightarrow> l | None \<Rightarrow> defaultLedger)"

definition writeFileSync :: "ledger \<Rightarrow> world \<Rightarrow> io_error + world" where
  "writeFileSync l w = (if writable w then Inr (w\<lparr>tradesFile := Some l\<rparr>) else Inl WriteFailed)"

text \<open>\<^verbatim>\<open>saveLedger\<close> catches the write error and logs it.\<close>

definition saveLedger :: "ledger \<Rightarrow> world \<Rightarrow> io_error + world" where
  "saveLedger l w =
     (case writeFileSync l w of
        Inr w' \<Rightarrow> Inr w'
      | Inl e \<Rightarrow> Inr (w\<lparr>consoleErrors := consoleErrors w + 1\<rparr>))"

text \<open>\<^verbatim>\<open>if (currentLedger === null) currentLedger = loadLedger();\<close>\<close>

definition ensureLoaded :: "world \<Rightarrow> ledger \<times> world" where
  "ensureLoaded w =
     (case currentLedger w of
        None \<Rightarrow> (loadLedger w, w\<lparr>currentLedger := Some (loadLedger w)\<rparr>)
      | Some l \<Rightarrow> (l, w))"

text \<open>
  \<^verbatim>\<open>updateLedger\<close>: the update function mutates the cached ledger in place, then the
  ledger is saved; an error of either is caught and logged.
\<close>

definition updateLedger :: "(ledger \<Rightarrow> ledger) \<Rightarrow> world \<Rightarrow> io_error + world" where
  "updateLedger updateFn w =
     (let (l, w1) = ensureLoaded w;
          l' = updateFn l;
          w2 = w1\<lparr>currentLedger := Some l'\<rparr>
      in case saveLedger l' w2 of
           Inr w3 \<Rightarrow> Inr w3
         | Inl e \<Rightarrow> Inr (w2\<lparr>consoleErrors := consoleErrors w2 + 1\<rparr>))"

text \<open>\<^verbatim>\<open>Number(x.toFixed(2))\<close>: nearest multiple of 0.01, a tie going away from zero.\<close>

definition toFixed2 :: "real \<Rightarrow> real" where
  "toFixed2 x =
     (if x < 0 then - (of_int \<lfloor>- x * 100 + 1 / 2\<rfloor> / 100)
      else of_int \<lfloor>x * 100 + 1 / 2\<rfloor> / 100)"

record summary_acc =
  accWins :: nat
  accLosses :: nat
  accPnL :: real

definition summary_step :: "summary_acc \<Rightarrow> trade \<Rightarrow> summary_acc" where
  "summary_step a t =
     (if status t = Some CLOSED
      then (if pnl t > 0
            then a\<lparr>accPnL := accPnL a + pnl t, accWins := accWins a + 1\<rparr>
            else a\<lparr>accPnL := accPnL a + pnl t, accLosses := accLosses a + 1\<rparr>)
      else a)"

definition recalculateSummary :: "trade list \<Rightarrow> summary" where
  "recalculateSummary ts =
     (let a = foldl summary_step \<lparr>accWins = 0, accLosses = 0, accPnL = 0\<rparr> ts;
          totalClosedTrades = accWins a + accLosses a;
          rate = (if totalClosedTrades > 0
                  then real (accWins a) / real totalClosedTrades * 100 else 0)
      in \<lparr>totalTrades = length ts, wins = accWins a, losses = accLosses a,
          totalPnL = accPnL a, winRate = toFixed2 rate\<rparr>)"

definition initializeLedger :: "world \<Rightarrow> io_error + world" where
  "initializeLedger w =
     (case currentLedger w of
        Some l \<Rightarrow> Inr w
      | None \<Rightarrow>
          (let l0 = loadLedger w;
               l = l0\<lparr>summary := recalculateSummary (trades l0)\<rparr>
           in saveLedger l (w\<lparr>currentLedger := Some l\<rparr>)))"

text \<open>
  \<^verbatim>\<open>typeof x === "number" && Number.isFinite(x) && x > 0\<close>, and for shares the same
  test on \<^verbatim>\<open>Number(x)\<close>.
\<close>

fun isPositiveFinite :: "jsnum \<Rightarrow> bool" where
  "isPositiveFinite (Fin x) = (x > 0)"
| "isPositiveFinite _ = False"

definition badEntryPrice :: "jsnum \<Rightarrow> bool" where
  "badEntryPrice ep = (\<not> isPositiveFinite ep)"

definition badShares :: "jsnum \<Rightarrow> bool" where
  "badShares sh = (sh \<noteq> Absent \<and> \<not> isPositiveFinite sh)"

definition statusOrOpen :: "trade \<Rightarrow> status" where
  "statusOrOpen t = (case status t of None \<Rightarrow> OPEN | Some s \<Rightarrow> s)"

text \<open>
  \<^verbatim>\<open>addTrade\<close>. The trade objects of this program always carry \<^verbatim>\<open>id\<close>,
  \<^verbatim>\<open>timestamp\<close> and a numeric \<^verbatim>\<open>pnl\<close>, so of the defaults of the pushed copy only
  the one of \<^verbatim>\<open>status\<close> is modelled.
\<close>

definition pushTrade :: "trade \<Rightarrow> ledger \<Rightarrow> ledger" where
  "pushTrade t l =
     (let newTrade = t\<lparr>status := Some (statusOrOpen t)\<rparr>;
          ts = trades l @ [newTrade]
      in l\<lparr>trades := ts, summary := recalculateSummary ts\<rparr>)"

definition addTrade :: "trade \<Rightarrow> world \<Rightarrow> io_error + world" where
  "addTrade t w =
     (if statusOrOpen t = OPEN \<and> (badEntryPrice (entryPrice t) \<or> badShares (shares t))
      then Inr w
      else updateLedger (pushTrade t) w)"

fun findIndex :: "('a \<Rightarrow> bool) \<Rightarrow> 'a list \<Rightarrow> nat option" where
  "findIndex p [] = None"
| "findIndex p (x # xs) =
     (if p x then Some 0 else map_option Suc (findIndex p xs))"

text \<open>
  \<^verbatim>\<open>updateTrade(tradeId, updateData)\<close>. The update data is represented by its merge
  \<^verbatim>\<open>{ ...old, ...updateData }\<close>, a function of the old record.
\<close>

definition patchTrade :: "string \<Rightarrow> (trade \<Rightarrow> trade) \<Rightarrow> ledger \<Rightarrow> ledger" where
  "patchTrade i updateData l =
     (case findIndex (\<lambda>t. tradeId t = i) (trades l) of
        Some k \<Rightarrow>
          (let ts = (trades l)[k := updateData (trades l ! k)]
           in l\<lparr>trades := ts, summary := recalculateSummary ts\<rparr>)
      | None \<Rightarrow> l)"

definition updateTrade :: "string \<Rightarrow> (trade \<Rightarrow> trade) \<Rightarrow> world \<Rightarrow> io_error + world" where
  "updateTrade i updateData w = updateLedger (patchTrade i updateData) w"

definition ledgerGetOpenTrade :: "world \<Rightarrow> trade option \<times> world" where
  "ledgerGetOpenTrade w =
     (let (l, w1) = ensureLoaded w
      in (find (\<lambda>t. status t = Some OPEN) (trades l), w1))"

definition getLedger :: "world \<Rightarrow> ledger \<times> world" where
  "getLedger w = ensureLoaded w"

section \<open>Trader (paper_trading/trader.js)\<close>

text \<open>
  The revision of the \<^verbatim>\<open>Trader\<close> class with bankroll sizing, rec gating, rollover
  close, conditional stop loss and flip entries: the source text that starts with the
  imports of \<^verbatim>\<open>../config.js\<close> and \<^verbatim>\<open>./ledger.js\<close> in src/src/ui/script.js
  (from line 375 of that file). It is the revision that test/trader-entry.test.js
  exercises; the older one in src/src/paper_trading/trader.js is modelled further down.
  The \<^verbatim>\<open>lastEntryStatus\<close> debug record, which no branch reads, is left out.
\<close>

record paperTrading =
  enabled :: bool
  startingBalance :: real
  stakePct :: real
  minTradeUsd :: real
  maxTradeUsd :: real
  cfgContractSize :: real
  minProbEarly :: real
  minProbMid :: real
  minProbLate :: real
  edgeEarly :: real
  edgeMid :: real
  edgeLate :: real
  stopLossPct :: real
  exitFlipMinProb :: real
  exitFlipMargin :: real
  flipOnProbabilityFlip :: bool
  flipCooldownSeconds :: int
  minLiquidity :: real
  maxSpread :: real
  minVolumeRecent :: real
  minVolumeRatio :: real
  minPolyPrice :: real
  maxPolyPrice :: real
  noEntryFinalMinutes :: real
  minCandlesForEntry :: nat
  recGating :: string  \<comment> \<open>empty: not configured\<close>

record recommendation =
  action :: string
  recSide :: "side option"
  recPhase :: phase
  edge :: "real option"

record prices =
  priceUP :: "real option"
  priceDOWN :: "real option"

record indicators =
  rsiNow :: "real option"
  vwapNow :: "real option"
  vwapSlope :: "real option"
  macdHist :: "real option"
  heikenColor :: "string option"
  heikenCount :: "real option"
  volumeRecent :: "real option"
  volumeAvg :: "real option"

record signals =
  recm :: recommendation
  polyPrices :: prices
  timeLeftMin :: real
  slug :: "string option"
  liquidityNum :: "real option"
  spreadUp :: "real option"
  spreadDown :: "real option"
  modelUp :: "real option"
  modelDown :: "real option"
  indicators :: indicators

record clock =
  nowMs :: int
  freshId :: string

definition bindE :: "'e + 'a \<Rightarrow> ('a \<Rightarrow> 'e + 'b) \<Rightarrow> 'e + 'b" where
  "bindE m f = (case m of Inl e \<Rightarrow> Inl e | Inr x \<Rightarrow> f x)"

fun priceOf :: "prices \<Rightarrow> side \<Rightarrow> real option" where
  "priceOf p UP = priceUP p"
| "priceOf p DOWN = priceDOWN p"

fun otherSide :: "side \<Rightarrow> side" where
  "otherSide UP = DOWN"
| "otherSide DOWN = UP"

text \<open>\<^verbatim>\<open>Trader.initialize\<close>\<close>

definition forcedClose :: "int \<Rightarrow> trade \<Rightarrow> trade" where
  "forcedClose now t =
     t\<lparr>status := Some CLOSED, exitPrice := exitPrice t, exitTime := Some now, pnl := 0,
       exitReason := Some ''Invalid Entry (sanity check)''\<rparr>"

definition initialize :: "int \<Rightarrow> world \<Rightarrow> io_error + world" where
  "initialize now w =
     (let (ot, w1) = ledgerGetOpenTrade w;
          w2 = w1\<lparr>openTrade := ot\<rparr>
      in case ot of
           None \<Rightarrow> Inr w2
         | Some t \<Rightarrow>
             if badEntryPrice (entryPrice t) \<or> badShares (shares t)
             then bindE (updateTrade (tradeId t) (\<lambda>old. forcedClose now t) w2)
                    (\<lambda>w3. Inr (w3\<lparr>openTrade := None\<rparr>))
             else Inr w2)"

text \<open>\<^verbatim>\<open>getBalanceSnapshot\<close> and \<^verbatim>\<open>computeContractSizeUsd\<close>\<close>

definition balanceOf :: "paperTrading \<Rightarrow> ledger \<Rightarrow> real" where
  "balanceOf c l = startingBalance c + totalPnL (summary l)"

definition computeContractSizeUsd :: "paperTrading \<Rightarrow> world \<Rightarrow> real \<times> world" where
  "computeContractSizeUsd c w =
     (let (l, w1) = getLedger w;
          balance = balanceOf c l
      in if balance \<le> 0 then (0, w1)
         else
           let useDynamic = stakePct c > 0;
               size0 = (if useDynamic then balance * stakePct c else cfgContractSize c);
               size1 = max (minTradeUsd c) (min (maxTradeUsd c) size0);
               size2 = min size1 balance
           in (of_int \<lfloor>size2 * 100\<rfloor> / 100, w1))"

text \<open>The gates of \<^verbatim>\<open>processSignals\<close>\<close>

definition strictRec :: "paperTrading \<Rightarrow> bool" where
  "strictRec c = ((if recGating c = [] then ''loose'' else recGating c) = ''strict'')"

definition recAction :: "signals \<Rightarrow> string" where
  "recAction s = (if action (recm s) = [] then ''NONE'' else action (recm s))"

text \<open>
  The side of the recommendation, or in loose mode the side inferred from the model
  probabilities; the flag is \<^verbatim>\<open>sideInferred\<close>.
\<close>

definition resolveSide :: "bool \<Rightarrow> signals \<Rightarrow> side option \<times> bool" where
  "resolveSide strict s =
     (case recSide (recm s) of
        Some sd \<Rightarrow> (Some sd, False)
      | None \<Rightarrow>
          if \<not> strict
          then (case modelUp s of
                  None \<Rightarrow> (None, False)
                | Some upP \<Rightarrow>
                    (case modelDown s of
                       None \<Rightarrow> (None, False)
                     | Some downP \<Rightarrow> (Some (if upP \<ge> downP then UP else DOWN), True)))
          else (None, False))"

definition exceeds :: "real option \<Rightarrow> real \<Rightarrow> bool" where
  "exceeds x bound = (case x of None \<Rightarrow> False | Some y \<Rightarrow> y > bound)"

definition below :: "real option \<Rightarrow> real \<Rightarrow> bool" where
  "below x bound = (case x of None \<Rightarrow> False | Some y \<Rightarrow> y < bound)"

definition hasBadSpread :: "paperTrading \<Rightarrow> signals \<Rightarrow> bool" where
  "hasBadSpread c s = (exceeds (spreadUp s) (maxSpread c) \<or> exceeds (spreadDown s) (maxSpread c))"

definition hasLowLiquidity :: "paperTrading \<Rightarrow> signals \<Rightarrow> bool" where
  "hasLowLiquidity c s = below (liquidityNum s) (minLiquidity c)"

definition isLowLiquidity :: "paperTrading \<Rightarrow> signals \<Rightarrow> bool" where
  "isLowLiquidity c s = (hasBadSpread c s \<or> hasLowLiquidity c s)"

definition isTooLateToEnter :: "paperTrading \<Rightarrow> signals \<Rightarrow> bool" where
  "isTooLateToEnter c s = (timeLeftMin s < noEntryFinalMinutes c)"

definition isLowVolume :: "paperTrading \<Rightarrow> signals \<Rightarrow> bool" where
  "isLowVolume c s =
     (let isLowVolumeAbsolute =
            (minVolumeRecent c > 0 \<and> below (volumeRecent (indicators s)) (minVolumeRecent c));
          isLowVolumeRelative =
            (minVolumeRatio c > 0 \<and>
             (case volumeAvg (indicators s) of
                None \<Rightarrow> False
              | Some avg \<Rightarrow> below (volumeRecent (indicators s)) (avg * minVolumeRatio c)))
      in isLowVolumeAbsolute \<or> isLowVolumeRelative)"

definition indicatorsPopulated :: "signals \<Rightarrow> bool" where
  "indicatorsPopulated s =
     (let ind = indicators s;
          hasRsi = (rsiNow ind \<noteq> None);
          hasVwap = (vwapNow ind \<noteq> None);
          hasVwapSlope = (vwapSlope ind \<noteq> None);
          hasMacd = (macdHist ind \<noteq> None);
          hasHeiken = ((case heikenColor ind of None \<Rightarrow> False | Some col \<Rightarrow> length col > 0)
                       \<and> heikenCount ind \<noteq> None)
      in hasRsi \<and> hasVwap \<and> hasVwapSlope \<and> hasMacd \<and> hasHeiken)"

fun minProbFor :: "paperTrading \<Rightarrow> phase \<Rightarrow> real" where
  "minProbFor c EARLY = minProbEarly c"
| "minProbFor c MID = minProbMid c"
| "minProbFor c LATE = minProbLate c"

fun edgeThresholdFor :: "paperTrading \<Rightarrow> phase \<Rightarrow> real" where
  "edgeThresholdFor c EARLY = edgeEarly c"
| "edgeThresholdFor c MID = edgeMid c"
| "edgeThresholdFor c LATE = edgeLate c"

fun modelProbOf :: "signals \<Rightarrow> side \<Rightarrow> real option" where
  "modelProbOf s UP = modelUp s"
| "modelProbOf s DOWN = modelDown s"

text \<open>
  \<^verbatim>\<open>modelProb >= minProb && (edge || 0) >= edgeThreshold\<close>; an absent probability is
  \<^verbatim>\<open>null\<close>, which the comparison converts to 0.
\<close>

definition meetsThresholds :: "paperTrading \<Rightarrow> signals \<Rightarrow> side \<Rightarrow> bool" where
  "meetsThresholds c s sd =
     (let ph = recPhase (recm s);
          modelProb = (case modelProbOf s sd of None \<Rightarrow> 0 | Some p \<Rightarrow> p);
          e = (case edge (recm s) of None \<Rightarrow> 0 | Some x \<Rightarrow> x)
      in modelProb \<ge> minProbFor c ph \<and> e \<ge> edgeThresholdFor c ph)"

definition marketSlugOf :: "signals \<Rightarrow> string" where
  "marketSlugOf s = (case slug s of None \<Rightarrow> ''unknown'' | Some x \<Rightarrow> if x = [] then ''unknown'' else x)"

definition openedTrade ::
  "clock \<Rightarrow> string \<Rightarrow> side \<Rightarrow> real \<Rightarrow> real \<Rightarrow> real \<Rightarrow> phase \<Rightarrow> bool option \<Rightarrow> string option \<Rightarrow> trade" where
  "openedTrade clk mslug sd price sh notional ph inferred reason =
     \<lparr>tradeId = freshId clk, timestamp = nowMs clk, marketSlug = mslug, side = sd,
      instrument = ''POLY'', entryPrice = Fin price, shares = Fin sh, contractSize = notional,
      status = Some OPEN, entryTime = nowMs clk, exitPrice = None, exitTime = None, pnl = 0,
      entryPhase = ph, sideInferred = inferred, exitReason = None, entryReason = reason\<rparr>"

text \<open>The body of \<^verbatim>\<open>if (meetsThresholds) { ... }\<close> of the entry branch.\<close>

definition enterTrade ::
  "paperTrading \<Rightarrow> signals \<Rightarrow> side \<Rightarrow> bool \<Rightarrow> real \<Rightarrow> clock \<Rightarrow> world \<Rightarrow> io_error + world" where
  "enterTrade c s sd inferred entryPx clk w =
     (if entryPx < minPolyPrice c \<or> entryPx > maxPolyPrice c then Inr w
      else
        let (contractSizeUsd, w1) = computeContractSizeUsd c w
        in if contractSizeUsd \<le> 0 then Inr w1
           else if \<not> entryPx > 0 then Inr w1
           else
             let sh = contractSizeUsd / entryPx
             in if sh \<le> 0 then Inr w1
                else
                  let t = openedTrade clk (marketSlugOf s) sd entryPx sh contractSizeUsd
                            (recPhase (recm s)) (Some inferred) None
                  in addTrade t (w1\<lparr>openTrade := Some t\<rparr>))"

text \<open>
  \<^verbatim>\<open>Trader.closeTrade\<close>. The source first writes the exit fields into the trade
  object and then passes it to \<^verbatim>\<open>updateTrade\<close>, which merges it over the record
  with its id. After \<^verbatim>\<open>initialize\<close> that object is the ledger's own record; with
  distinct trade ids it is the record the update replaces, so the in-place writes and the
  update have the same effect, which is the one modelled.
\<close>

definition sharesOf :: "trade \<Rightarrow> real" where
  "sharesOf t =
     (case shares t of
        Fin x \<Rightarrow> x
      | _ \<Rightarrow> (case entryPrice t of
                Fin p \<Rightarrow> if p > 0 then contractSize t / p else 0
              | _ \<Rightarrow> 0))"

definition closedTrade :: "trade \<Rightarrow> real \<Rightarrow> string \<Rightarrow> int \<Rightarrow> trade" where
  "closedTrade t exitPx reason now =
     (let value = sharesOf t * exitPx;
          p = value - contractSize t
      in t\<lparr>exitPrice := Some exitPx, exitTime := Some now, pnl := toFixed2 p,
           status := Some CLOSED, exitReason := Some reason\<rparr>)"

definition closeTrade :: "trade \<Rightarrow> real \<Rightarrow> string \<Rightarrow> clock \<Rightarrow> world \<Rightarrow> io_error + world" where
  "closeTrade t exitPx reason clk w =
     bindE (updateTrade (tradeId t) (\<lambda>old. closedTrade t exitPx reason (nowMs clk)) w)
       (\<lambda>w1. Inr (w1\<lparr>openTrade := None\<rparr>))"

text \<open>The exit rules, in the order of the source.\<close>

definition stopLossHit :: "paperTrading \<Rightarrow> signals \<Rightarrow> trade \<Rightarrow> bool" where
  "stopLossHit c s t =
     (case priceOf (polyPrices s) (side t) of
        None \<Rightarrow> False
      | Some curPx \<Rightarrow>
          (let valueNow = sharesOf t * curPx;
               pnlNow = valueNow - contractSize t;
               stopLossAmount = - \<bar>contractSize t * stopLossPct c\<bar>
           in pnlNow \<le> stopLossAmount))"

definition opposingMoreLikely :: "paperTrading \<Rightarrow> signals \<Rightarrow> trade \<Rightarrow> bool" where
  "opposingMoreLikely c s t =
     (case modelUp s of
        None \<Rightarrow> False
      | Some upP \<Rightarrow>
          (case modelDown s of
             None \<Rightarrow> False
           | Some downP \<Rightarrow>
               (case side t of
                  UP \<Rightarrow> downP \<ge> exitFlipMinProb c \<and> downP \<ge> upP + exitFlipMargin c
                | DOWN \<Rightarrow> upP \<ge> exitFlipMinProb c \<and> upP \<ge> downP + exitFlipMargin c)))"

record exit_decision =
  shouldExit :: bool
  exitReasonOf :: string
  shouldFlip :: bool

definition decideExit ::
  "paperTrading \<Rightarrow> signals \<Rightarrow> trade \<Rightarrow> bool \<Rightarrow> clock \<Rightarrow> world \<Rightarrow> exit_decision" where
  "decideExit c s t canEnter clk w =
     (let d0 = \<lparr>shouldExit = False, exitReasonOf = [], shouldFlip = False\<rparr>;
          d1 = (if \<not> shouldExit d0 \<and> opposingMoreLikely c s t
                then \<lparr>shouldExit = True, exitReasonOf = ''Probability Flip'',
                      shouldFlip = (flipOnProbabilityFlip c \<and> canEnter \<and> \<not> isTooLateToEnter c s
                        \<and> nowMs clk - lastFlipAtMs w \<ge> flipCooldownSeconds c * 1000)\<rparr>
                else d0);
          d2 = (if \<not> shouldExit d1 \<and> stopLossHit c s t \<and> opposingMoreLikely c s t
                then d1\<lparr>shouldExit := True, exitReasonOf := ''Stop Loss''\<rparr>
                else d1);
          d3 = (if \<not> shouldExit d2 \<and> timeLeftMin s < 0.5
                then d2\<lparr>shouldExit := True, exitReasonOf := ''End of Candle''\<rparr>
                else d2)
      in d3)"

text \<open>The optional flip entry that follows a probability-flip exit.\<close>

definition flipEntry ::
  "paperTrading \<Rightarrow> signals \<Rightarrow> trade \<Rightarrow> clock \<Rightarrow> world \<Rightarrow> io_error + world" where
  "flipEntry c s t clk w =
     (let newSide = otherSide (side t)
      in case priceOf (polyPrices s) newSide of
           None \<Rightarrow> Inr w
         | Some entryPx \<Rightarrow>
             if entryPx \<ge> minPolyPrice c \<and> entryPx \<le> maxPolyPrice c
                \<and> \<not> isLowLiquidity c s \<and> \<not> isLowVolume c s
             then
               let (contractSizeUsd, w1) = computeContractSizeUsd c w
               in if contractSizeUsd \<le> 0 then Inr w1
                  else if \<not> entryPx > 0 then Inr w1
                  else
                    let sh = contractSizeUsd / entryPx
                    in if sh > 0
                       then
                         let flipped = openedTrade clk (marketSlugOf s) newSide entryPx sh
                                         contractSizeUsd (recPhase (recm s)) None (Some ''Flip'')
                         in bindE (addTrade flipped w1)
                              (\<lambda>w2. Inr (w2\<lparr>openTrade := Some flipped,
                                              lastFlipAtMs := nowMs clk\<rparr>))
                       else Inr w1
             else Inr w)"

text \<open>The \<^verbatim>\<open>else if (this.openTrade) { ... }\<close> branch.\<close>

definition exitBranch ::
  "paperTrading \<Rightarrow> signals \<Rightarrow> trade \<Rightarrow> bool \<Rightarrow> clock \<Rightarrow> world \<Rightarrow> io_error + world" where
  "exitBranch c s t canEnter clk w =
     (if marketSlug t \<noteq> [] \<and> marketSlugOf s \<noteq> [] \<and> marketSlug t \<noteq> marketSlugOf s
      then (case priceOf (polyPrices s) (side t) of
              Some exitPx \<Rightarrow> closeTrade t exitPx ''Market Rollover'' clk w
            | None \<Rightarrow> Inr w)
      else
        let d = decideExit c s t canEnter clk w
        in if shouldExit d
           then (case priceOf (polyPrices s) (side t) of
                   None \<Rightarrow> Inr w
                 | Some exitPx \<Rightarrow>
                     bindE (closeTrade t exitPx (exitReasonOf d) clk w)
                       (\<lambda>w1. if shouldFlip d then flipEntry c s t clk w1 else Inr w1))
           else Inr w)"

definition processSignals ::
  "paperTrading \<Rightarrow> signals \<Rightarrow> nat \<Rightarrow> clock \<Rightarrow> world \<Rightarrow> io_error + world" where
  "processSignals c s candleCount clk w =
     (if \<not> enabled c then Inr w
      else
        let indicatorsReady = (candleCount \<ge> minCandlesForEntry c);
            strict = strictRec c
        in if openTrade w = None \<and> strict \<and> recAction s \<noteq> ''ENTER'' then Inr w
           else
             (case resolveSide strict s of
                (None, inferred) \<Rightarrow> Inr w
              | (Some sd, inferred) \<Rightarrow>
                  (case priceOf (polyPrices s) sd of
                     None \<Rightarrow> Inr w
                   | Some currentPolyPrice \<Rightarrow>
                       let canEnter = indicatorsReady;
                           wantsEnter = (recAction s = ''ENTER'' \<or> \<not> strict)
                       in if canEnter \<and> indicatorsPopulated s \<and> openTrade w = None \<and> wantsEnter
                             \<and> \<not> isTooLateToEnter c s \<and> \<not> isLowLiquidity c s
                             \<and> \<not> isLowVolume c s
                          then (if meetsThresholds c s sd
                                then enterTrade c s sd inferred currentPolyPrice clk w
                                else Inr w)
                          else (case openTrade w of
                                  Some t \<Rightarrow> exitBranch c s t canEnter clk w
                                | None \<Rightarrow> Inr w))))"

section \<open>Observations and sample inputs\<close>

text \<open>The ledger as the module sees it: the cached one, or the one a first access loads.\<close>

definition ledgerView :: "world \<Rightarrow> ledger" where
  "ledgerView w = fst (getLedger w)"

text \<open>The effect of a completed \<^verbatim>\<open>updateLedger\<close> call, used to state results.\<close>

definition afterUpdate :: "(ledger \<Rightarrow> ledger) \<Rightarrow> world \<Rightarrow> world" where
  "afterUpdate f w =
     (let l' = f (ledgerView w)
      in if writable w then w\<lparr>currentLedger := Some l', tradesFile := Some l'\<rparr>
         else w\<lparr>currentLedger := Some l', consoleErrors := consoleErrors w + 1\<rparr>)"

definition openCount :: "ledger \<Rightarrow> nat" where
  "openCount l = length (filter (\<lambda>t. status t = Some OPEN) (trades l))"

text \<open>A fresh process: no trades.json, nothing cached, the trader not yet in a trade.\<close>

definition freshWorld :: world where
  "freshWorld =
     \<lparr>currentLedger = None, tradesFile = None, writable = True, consoleErrors = 0,
      openTrade = None, lastFlipAtMs = 0\<rparr>"

definition sampleClock :: clock where
  "sampleClock = \<lparr>nowMs = 1770000000000, freshId = ''1770000000000abc123''\<rparr>"

text \<open>The defaults of config.js (src/unnamed/part_003, lines 52 to 113).\<close>

definition defaultConfig :: paperTrading where
  "defaultConfig =
     \<lparr>enabled = True, startingBalance = 1000, stakePct = 0.10, minTradeUsd = 25,
      maxTradeUsd = 250, cfgContractSize = 100,
      minProbEarly = 0.60, minProbMid = 0.64, minProbLate = 0.68,
      edgeEarly = 0.08, edgeMid = 0.12, edgeLate = 0.16,
      stopLossPct = 0.20, exitFlipMinProb = 0.58, exitFlipMargin = 0.05,
      flipOnProbabilityFlip = True, flipCooldownSeconds = 180,
      minLiquidity = 1000, maxSpread = 0.05, minVolumeRecent = 0, minVolumeRatio = 0,
      minPolyPrice = 0.01, maxPolyPrice = 0.98, noEntryFinalMinutes = 2,
      minCandlesForEntry = 30, recGating = []\<rparr>"

text \<open>An OPEN trade of 500 UP shares bought at 0.20 for 100 dollars in market m1.\<close>

definition sampleTrade :: trade where
  "sampleTrade = openedTrade sampleClock ''m1'' UP 0.20 500 100 EARLY (Some False) None"

text \<open>The result of an operation, observed.\<close>

definition openTradeAfter :: "io_error + world \<Rightarrow> trade option" where
  "openTradeAfter r = (case r of Inl e \<Rightarrow> None | Inr w \<Rightarrow> openTrade w)"

definition ledgerAfter :: "io_error + world \<Rightarrow> ledger option" where
  "ledgerAfter r = (case r of Inl e \<Rightarrow> None | Inr w \<Rightarrow> Some (ledgerView w))"

text \<open>
  The specification's words for the position size: clamp of balance times stake percent,
  capped at the balance; and rounding down to whole cents.
\<close>

definition clamp :: "real \<Rightarrow> real \<Rightarrow> real \<Rightarrow> real" where
  "clamp x lo hi = max lo (min hi x)"

definition claimedNotional :: "paperTrading \<Rightarrow> real \<Rightarrow> real" where
  "claimedNotional c balance =
     min (clamp (balance * stakePct c) (minTradeUsd c) (maxTradeUsd c)) balance"

definition floorCents :: "real \<Rightarrow> real" where
  "floorCents x = of_int \<lfloor>x * 100\<rfloor> / 100"

text \<open>
  A tick on which every entry gate passes: the recommendation is ENTER UP in the early
  phase, UP is quoted at 0.20, ten minutes are left, the indicators are populated.
\<close>

definition entrySignals :: signals where
  "entrySignals =
     \<lparr>recm = \<lparr>action = ''ENTER'', recSide = Some UP, recPhase = EARLY, edge = Some 0.2\<rparr>,
      polyPrices = \<lparr>priceUP = Some 0.20, priceDOWN = Some 0.80\<rparr>,
      timeLeftMin = 10, slug = Some ''m1'', liquidityNum = Some 100000,
      spreadUp = Some 0.01, spreadDown = Some 0.01,
      modelUp = Some 0.7, modelDown = Some 0.3,
      indicators = \<lparr>rsiNow = Some 50, vwapNow = Some 100, vwapSlope = Some 0.1,
        macdHist = Some 1, heikenColor = Some ''green'', heikenCount = Some 3,
        volumeRecent = None, volumeAvg = None\<rparr>\<rparr>"




text \<open>
  The configuration and the tick of test/trader-entry.test.js: loose rec gating, a
  recommendation NO_TRADE without a side, model probabilities 0.7 and 0.3.
\<close>

definition testConfig :: paperTrading where
  "testConfig =
     defaultConfig\<lparr>recGating := ''loose'', enabled := True, noEntryFinalMinutes := 2,
       minCandlesForEntry := 1, minPolyPrice := 0.002, maxPolyPrice := 0.98,
       minLiquidity := 0, maxSpread := 999, minProbEarly := 0.50, edgeEarly := 0\<rparr>"

definition testSignals :: signals where
  "testSignals =
     \<lparr>recm = \<lparr>action = ''NO_TRADE'', recSide = None, recPhase = EARLY, edge = Some 0.2\<rparr>,
      polyPrices = \<lparr>priceUP = Some 0.01, priceDOWN = Some 0.02\<rparr>,
      timeLeftMin = 10, slug = Some ''m1'', liquidityNum = Some 100000,
      spreadUp = Some 0.01, spreadDown = Some 0.01,
      modelUp = Some 0.7, modelDown = Some 0.3,
      indicators = \<lparr>rsiNow = Some 50, vwapNow = Some 100, vwapSlope = Some 0.1,
        macdHist = Some 1, heikenColor = Some ''green'', heikenCount = Some 3,
        volumeRecent = None, volumeAvg = None\<rparr>\<rparr>"
text \<open>
  The world after the sample entry: the trader holds \<open>sampleTrade\<close>, which is the only
  trade of the ledger, in the cache and in the file.
\<close>

definition openLedger :: ledger where
  "openLedger = \<lparr>trades = [sampleTrade], summary = recalculateSummary [sampleTrade]\<rparr>"

definition openWorld :: world where
  "openWorld =
     freshWorld\<lparr>currentLedger := Some openLedger, tradesFile := Some openLedger,
       openTrade := Some sampleTrade\<rparr>"

definition laterClock :: clock where
  "laterClock = \<lparr>nowMs = 1770000300000, freshId = ''1770000300000def456''\<rparr>"

text \<open>
  Ticks of the next market m2 (a rollover for \<open>sampleTrade\<close>), the model still favouring
  UP: one with UP quoted at 0.10, one with no quote for UP.
\<close>

definition rolloverSignals :: signals where
  "rolloverSignals =
     entrySignals\<lparr>slug := Some ''m2'',
       polyPrices := \<lparr>priceUP = Some 0.10, priceDOWN = Some 0.90\<rparr>\<rparr>"

definition rolloverNoQuote :: signals where
  "rolloverNoQuote =
     entrySignals\<lparr>slug := Some ''m2'',
       recm := \<lparr>action = ''NO_TRADE'', recSide = Some DOWN, recPhase = EARLY, edge = None\<rparr>,
       polyPrices := \<lparr>priceUP = None, priceDOWN = Some 0.90\<rparr>\<rparr>"

text \<open>A tick of market m1 with UP fallen to 0.10 and the model still favouring UP.\<close>

definition lossSignals :: signals where
  "lossSignals = entrySignals\<lparr>polyPrices := \<lparr>priceUP = Some 0.10, priceDOWN = Some 0.90\<rparr>\<rparr>"

text \<open>
  Scenario B: exit thresholds 0.55 and 0.05, a tick of market m1 with model probabilities
  0.40 for UP and 0.65 for DOWN; and a world holding 312.5 UP shares bought at 0.32.
\<close>

definition flipConfig :: paperTrading where
  "flipConfig = defaultConfig\<lparr>exitFlipMinProb := 0.55, exitFlipMargin := 0.05\<rparr>"

definition flipSignals :: "real \<Rightarrow> signals" where
  "flipSignals upQuote =
     entrySignals\<lparr>modelUp := Some 0.40, modelDown := Some 0.65,
       recm := \<lparr>action = ''ENTER'', recSide = Some DOWN, recPhase = EARLY, edge = Some 0.1\<rparr>,
       polyPrices := \<lparr>priceUP = Some upQuote, priceDOWN = Some 0.75\<rparr>\<rparr>"




text \<open>
  A tick of market m1 in its last 12 seconds: the recommendation is DOWN, DOWN has no
  quote, the held side UP is quoted at 0.30.
\<close>

definition lastSecondsSignals :: signals where
  "lastSecondsSignals =
     entrySignals\<lparr>timeLeftMin := 0.2,
       recm := \<lparr>action = ''NO_TRADE'', recSide = Some DOWN, recPhase = LATE, edge = None\<rparr>,
       polyPrices := \<lparr>priceUP = Some 0.30, priceDOWN = None\<rparr>\<rparr>"

text \<open>
  The session of index.js (\<^verbatim>\<open>startApp\<close>): the ledger is initialised, the trader is
  constructed and initialised, and then every polling tick is given to
  \<^verbatim>\<open>processSignals\<close>. A tick carries what the environment supplies: whether the file
  can be written, the signals, the number of candles, and the clock reading with the fresh
  trade id.
\<close>

record tick =
  tickWritable :: bool
  tickSignals :: signals
  tickCandles :: nat
  tickClock :: clock

fun runTicks :: "paperTrading \<Rightarrow> tick list \<Rightarrow> world \<Rightarrow> io_error + world" where
  "runTicks c [] w = Inr w"
| "runTicks c (x # xs) w =
     bindE (processSignals c (tickSignals x) (tickCandles x) (tickClock x)
              (w\<lparr>writable := tickWritable x\<rparr>))
       (runTicks c xs)"

definition startApp :: "paperTrading \<Rightarrow> int \<Rightarrow> tick list \<Rightarrow> world \<Rightarrow> io_error + world" where
  "startApp c now ticks w =
     bindE (initializeLedger w)
       (\<lambda>w1. bindE (initialize now (w1\<lparr>openTrade := None, lastFlipAtMs := 0\<rparr>))
                (runTicks c ticks))"

text \<open>
  The invariant of a session: trade ids are distinct, every OPEN trade of the ledger is the
  one the trader holds, and the file holds at most one OPEN trade.
\<close>

definition idsOf :: "ledger \<Rightarrow> string list" where
  "idsOf l = map tradeId (trades l)"

definition ledgerOk :: "ledger \<Rightarrow> trade option \<Rightarrow> bool" where
  "ledgerOk l ot =
     (distinct (idsOf l)
      \<and> (\<forall>x\<in>set (trades l). status x = Some OPEN \<longrightarrow>
            (\<exists>t. ot = Some t \<and> tradeId t = tradeId x)))"

definition fileOk :: "ledger option \<Rightarrow> bool" where
  "fileOk f = (case f of None \<Rightarrow> True | Some l \<Rightarrow> openCount l \<le> 1)"

definition traderInv :: "world \<Rightarrow> bool" where
  "traderInv w = (ledgerOk (ledgerView w) (openTrade w) \<and> fileOk (tradesFile w))"

text \<open>A second OPEN trade, on the other side of market m1.\<close>

definition secondTrade :: trade where
  "secondTrade = openedTrade laterClock ''m1'' DOWN 0.80 125 100 EARLY (Some False) None"

text \<open>What one tick may do to a world that satisfies the invariant.\<close>

definition stepOk :: "clock \<Rightarrow> world \<Rightarrow> world \<Rightarrow> bool" where
  "stepOk clk w w' =
     (traderInv w'
      \<and> set (idsOf (ledgerView w')) \<subseteq> insert (freshId clk) (set (idsOf (ledgerView w))))"

text \<open>A session of two ticks: an entry into UP, then a probability flip into DOWN.\<close>

definition sessionTicks :: "tick list" where
  "sessionTicks =
     [\<lparr>tickWritable = True, tickSignals = entrySignals, tickCandles = 30,
       tickClock = sampleClock\<rparr>,
      \<lparr>tickWritable = False, tickSignals = flipSignals 0.15, tickCandles = 31,
       tickClock = laterClock\<rparr>]"

text \<open>
  Strict rec gating, and a tick of market m1 in its last 12 seconds on which the
  recommendation is NO_TRADE without a side while both sides are quoted.
\<close>

definition strictConfig :: paperTrading where
  "strictConfig = defaultConfig\<lparr>recGating := ''strict''\<rparr>"

definition noSideSignals :: signals where
  "noSideSignals =
     entrySignals\<lparr>timeLeftMin := 0.2,
       recm := \<lparr>action = ''NO_TRADE'', recSide = None, recPhase = LATE, edge = None\<rparr>,
       polyPrices := \<lparr>priceUP = Some 0.30, priceDOWN = Some 0.70\<rparr>\<rparr>"

section \<open>The older revision of the Trader (src/src/paper_trading/trader.js)\<close>

text \<open>
  The file src/src/paper_trading/trader.js holds an older revision of the same class: a
  fixed notional \<^verbatim>\<open>CONFIG.paperTrading.contractSize\<close>, entries only on
  \<^verbatim>\<open>rec.action === "ENTER"\<close> with the side of the recommendation, the spread as the
  only liquidity filter, the warm-up gate as a return, and of the exit rules only the
  probability flip and the end of the window. It is modelled here as well, with the
  ledger and the helper functions it shares with the later revision.
\<close>

definition enterTradeLegacy ::
  "paperTrading \<Rightarrow> signals \<Rightarrow> side \<Rightarrow> real \<Rightarrow> clock \<Rightarrow> world \<Rightarrow> io_error + world" where
  "enterTradeLegacy c s sd entryPx clk w =
     (if entryPx < minPolyPrice c \<or> entryPx > maxPolyPrice c then Inr w
      else if \<not> entryPx > 0 then Inr w
      else
        let sh = cfgContractSize c / entryPx
        in if sh \<le> 0 then Inr w
           else
             let t = openedTrade clk (marketSlugOf s) sd entryPx sh (cfgContractSize c)
                       (recPhase (recm s)) None None
             in addTrade t (w\<lparr>openTrade := Some t\<rparr>))"

definition decideExitLegacy :: "paperTrading \<Rightarrow> signals \<Rightarrow> trade \<Rightarrow> exit_decision" where
  "decideExitLegacy c s t =
     (let d0 = \<lparr>shouldExit = False, exitReasonOf = [], shouldFlip = False\<rparr>;
          d1 = (if opposingMoreLikely c s t
                then d0\<lparr>shouldExit := True, exitReasonOf := ''Probability Flip''\<rparr>
                else d0);
          d2 = (if \<not> shouldExit d1 \<and> timeLeftMin s < 0.5
                then d1\<lparr>shouldExit := True, exitReasonOf := ''End of Candle''\<rparr>
                else d1)
      in d2)"

definition exitBranchLegacy ::
  "paperTrading \<Rightarrow> signals \<Rightarrow> trade \<Rightarrow> clock \<Rightarrow> world \<Rightarrow> io_error + world" where
  "exitBranchLegacy c s t clk w =
     (let d = decideExitLegacy c s t
      in if shouldExit d
         then (case priceOf (polyPrices s) (side t) of
                 None \<Rightarrow> Inr w
               | Some exitPx \<Rightarrow> closeTrade t exitPx (exitReasonOf d) clk w)
         else Inr w)"

definition processSignalsLegacy ::
  "paperTrading \<Rightarrow> signals \<Rightarrow> nat \<Rightarrow> clock \<Rightarrow> world \<Rightarrow> io_error + world" where
  "processSignalsLegacy c s candleCount clk w =
     (if \<not> enabled c then Inr w
      else
        let indicatorsReady = (candleCount \<ge> minCandlesForEntry c)
        in case recSide (recm s) of
             None \<Rightarrow> Inr w
           | Some sd \<Rightarrow>
               (case priceOf (polyPrices s) sd of
                  None \<Rightarrow> Inr w
                | Some currentPolyPrice \<Rightarrow>
                    if \<not> indicatorsReady then Inr w
                    else if openTrade w = None \<and> action (recm s) = ''ENTER''
                            \<and> \<not> isTooLateToEnter c s \<and> \<not> hasBadSpread c s
                            \<and> \<not> isLowVolume c s
                    then (if meetsThresholds c s sd
                          then enterTradeLegacy c s sd currentPolyPrice clk w
                          else Inr w)
                    else (case openTrade w of
                            Some t \<Rightarrow> exitBranchLegacy c s t clk w
                          | None \<Rightarrow> Inr w)))"

section \<open>Properties\<close>

lemma vwap_fold_zero_volume:
  assumes "fadd A (fzero A) (fzero A) = fzero A"
    and "\<forall>c\<in>set cs. volume c = Some (fzero A)" and "v a = fzero A"
  shows "v (foldl (vwap_step A) a cs) = fzero A
         \<and> tpSum (foldl (vwap_step A) a cs) = foldl (fadd A) (tpSum a) (map (typicalPrice A) cs)
         \<and> n (foldl (vwap_step A) a cs) = n a + length cs"
  using assms(2,3)
proof (induction cs arbitrary: a)
  case Nil
  then show ?case by simp
next
  case (Cons c cs)
  have vol: "volume c = Some (fzero A)" and rest: "\<forall>c\<in>set cs. volume c = Some (fzero A)"
    using Cons.prems(1) by simp_all
  have step: "v (vwap_step A a c) = fzero A"
    "tpSum (vwap_step A a c) = fadd A (tpSum a) (typicalPrice A c)"
    "n (vwap_step A a c) = n a + 1"
    using vol Cons.prems(2) assms(1) by (simp_all add: vwap_step_def typicalPrice_def Let_def)
  show ?case
    using Cons.IH [OF rest step(1)] by (simp add: step)
qed

text \<open>
  C10. For every non-empty bar sequence whose volumes are all zero, the session VWAP is
  exactly the unweighted arithmetic mean of the typical price (high + low + close) / 3:
  the same value in any arithmetic in which 0 + 0 = 0, exact or rounding.
\<close>

theorem C10_vwap_zero_volume_mean:
  assumes "fadd A (fzero A) (fzero A) = fzero A"
    and "cs \<noteq> []" and "\<forall>c\<in>set cs. volume c = Some (fzero A)"
  shows "computeSessionVwap A cs = Some (unweightedMean A cs)"
proof -
  have "v (vwap_init A) = fzero A"
    by (simp add: vwap_init_def)
  from vwap_fold_zero_volume [OF assms(1,3) this]
  show ?thesis
    using assms(2) by (simp add: computeSessionVwap_def unweightedMean_def vwap_init_def Let_def)
qed

text \<open>In exact arithmetic the mean is the sum of the typical prices over their number.\<close>

lemma real_mean: "unweightedMean realArith cs
    = sum_list (map (\<lambda>c. (high c + low c + close c) / 3) cs) / real (length cs)"
proof -
  have "foldl (+) a xs = a + sum_list xs" for a :: real and xs
    by (induction xs arbitrary: a) simp_all
  then show ?thesis
    by (simp add: unweightedMean_def realArith_def typicalPrice_def [abs_def])
qed

theorem C10_vwap_zero_volume_mean_witness:
  "computeSessionVwap realArith
     [\<lparr>high = 110, low = 90, close = 100, volume = Some 0\<rparr>,
      \<lparr>high = 120, low = 100, close = 110, volume = Some 0\<rparr>]
   = Some (((110 + 90 + 100) / 3 + (120 + 100 + 110) / 3) / 2)"
  using C10_vwap_zero_volume_mean
    [of realArith "[\<lparr>high = 110, low = 90, close = 100, volume = Some 0\<rparr>,
          \<lparr>high = 120, low = 100, close = 110, volume = Some 0\<rparr>]"]
  by (simp add: unweightedMean_def typicalPrice_def realArith_def)

subsection \<open>Ledger operations\<close>

lemma bindE_Inr: "bindE (Inr x) f = f x"
  by (simp add: bindE_def)

lemma saveLedger_eq:
  "saveLedger l w =
     Inr (if writable w then w\<lparr>tradesFile := Some l\<rparr>
          else w\<lparr>consoleErrors := consoleErrors w + 1\<rparr>)"
  by (simp add: saveLedger_def writeFileSync_def)

lemma ledgerView_eq:
  "ledgerView w = (case currentLedger w of None \<Rightarrow> loadLedger w | Some l \<Rightarrow> l)"
  by (simp add: ledgerView_def getLedger_def ensureLoaded_def split: option.split)

lemma ensureLoaded_view:
  "ensureLoaded w = (ledgerView w, w\<lparr>currentLedger := Some (ledgerView w)\<rparr>)"
  by (simp add: ledgerView_eq ensureLoaded_def split: option.split)

lemma updateLedger_eq: "updateLedger f w = Inr (afterUpdate f w)"
  by (simp add: updateLedger_def ensureLoaded_view saveLedger_eq afterUpdate_def Let_def)

lemma afterUpdate_fields:
  "currentLedger (afterUpdate f w) = Some (f (ledgerView w))"
  "ledgerView (afterUpdate f w) = f (ledgerView w)"
  "openTrade (afterUpdate f w) = openTrade w"
  "lastFlipAtMs (afterUpdate f w) = lastFlipAtMs w"
  "writable (afterUpdate f w) = writable w"
  by (simp_all add: afterUpdate_def ledgerView_eq Let_def)

text \<open>
  C8. An OPEN trade (status OPEN or absent) whose entry price is not a finite number above
  0, or whose shares are set and not a finite number above 0, is rejected by
  \<^verbatim>\<open>addTrade\<close>: nothing is cached, written or changed.
\<close>

theorem C8_addTrade_rejects_invalid_open:
  assumes "status t = None \<or> status t = Some OPEN"
    and "(\<forall>x. entryPrice t = Fin x \<longrightarrow> x \<le> 0)
         \<or> (shares t \<noteq> Absent \<and> (\<forall>x. shares t = Fin x \<longrightarrow> x \<le> 0))"
  shows "addTrade t w = Inr w"
proof -
  have op: "statusOrOpen t = OPEN"
    using assms(1) by (auto simp: statusOrOpen_def)
  have bad: "badEntryPrice (entryPrice t) \<or> badShares (shares t)"
  proof -
    have ep: "(\<forall>x. entryPrice t = Fin x \<longrightarrow> x \<le> 0) \<Longrightarrow> badEntryPrice (entryPrice t)"
      by (cases "entryPrice t") (simp_all add: badEntryPrice_def)
    have sh: "shares t \<noteq> Absent \<Longrightarrow> (\<forall>x. shares t = Fin x \<longrightarrow> x \<le> 0)
        \<Longrightarrow> badShares (shares t)"
      by (cases "shares t") (simp_all add: badShares_def)
    show ?thesis using assms(2) ep sh by blast
  qed
  show ?thesis using op bad by (simp add: addTrade_def)
qed

theorem C8_addTrade_rejects_invalid_open_witness:
  "addTrade (sampleTrade\<lparr>entryPrice := Fin 0\<rparr>) freshWorld = Inr freshWorld
   \<and> addTrade (sampleTrade\<lparr>shares := NonFinite, status := None\<rparr>) freshWorld = Inr freshWorld"
proof -
  have a: "addTrade (sampleTrade\<lparr>entryPrice := Fin 0\<rparr>) freshWorld = Inr freshWorld"
    using C8_addTrade_rejects_invalid_open [of "sampleTrade\<lparr>entryPrice := Fin 0\<rparr>" freshWorld]
    by (simp add: sampleTrade_def openedTrade_def)
  have b: "addTrade (sampleTrade\<lparr>shares := NonFinite, status := None\<rparr>) freshWorld
      = Inr freshWorld"
    using C8_addTrade_rejects_invalid_open
      [of "sampleTrade\<lparr>shares := NonFinite, status := None\<rparr>" freshWorld]
    by (simp add: sampleTrade_def openedTrade_def)
  show ?thesis using a b by simp
qed

text \<open>
  C9, as stated, fails: with the file not writable, appending a valid trade returns
  normally and the cached ledger has advanced by the trade.
\<close>

theorem C9_counterexample:
  "addTrade sampleTrade (freshWorld\<lparr>writable := False\<rparr>)
     = Inr (freshWorld\<lparr>writable := False, consoleErrors := 1,
              currentLedger := Some \<lparr>trades = [sampleTrade],
                summary = \<lparr>totalTrades = 1, wins = 0, losses = 0, totalPnL = 0,
                           winRate = 0\<rparr>\<rparr>\<rparr>)"
  by (simp add: addTrade_def updateLedger_eq afterUpdate_def ledgerView_eq loadLedger_def
      defaultLedger_def pushTrade_def recalculateSummary_def summary_step_def toFixed2_def
      statusOrOpen_def badEntryPrice_def badShares_def sampleTrade_def openedTrade_def
      freshWorld_def Let_def)

text \<open>
  C9, amended. When the write fails, the error is caught and logged: the mutating
  operation returns normally, the cached ledger is advanced by the update, the file keeps
  its content, and the trader's state is untouched.
\<close>

theorem C9_write_failure_swallowed:
  assumes "\<not> writable w"
  shows "updateLedger f w
         = Inr (w\<lparr>currentLedger := Some (f (ledgerView w)),
                  consoleErrors := consoleErrors w + 1\<rparr>)"
  using assms by (simp add: updateLedger_eq afterUpdate_def Let_def)

theorem C9_write_failure_swallowed_witness:
  "updateLedger (pushTrade sampleTrade) (freshWorld\<lparr>writable := False\<rparr>)
     = Inr (freshWorld\<lparr>writable := False, consoleErrors := 1,
              currentLedger := Some (pushTrade sampleTrade defaultLedger)\<rparr>)"
  using C9_write_failure_swallowed [of "freshWorld\<lparr>writable := False\<rparr>" "pushTrade sampleTrade"]
  by (simp add: freshWorld_def ledgerView_eq loadLedger_def)

subsection \<open>Trader: basic facts\<close>

lemma addTrade_eq:
  "addTrade t w =
     Inr (if statusOrOpen t = OPEN \<and> (badEntryPrice (entryPrice t) \<or> badShares (shares t))
          then w else afterUpdate (pushTrade t) w)"
  by (auto simp: addTrade_def updateLedger_eq)

lemma updateTrade_eq: "updateTrade i u w = Inr (afterUpdate (patchTrade i u) w)"
  by (simp add: updateTrade_def updateLedger_eq)

lemma closeTrade_eq:
  "closeTrade t px r clk w =
     Inr ((afterUpdate (patchTrade (tradeId t) (\<lambda>old. closedTrade t px r (nowMs clk))) w)
            \<lparr>openTrade := None\<rparr>)"
  by (simp add: closeTrade_def updateTrade_eq bindE_Inr)

lemma computeContractSizeUsd_snd:
  "snd (computeContractSizeUsd c w) = w\<lparr>currentLedger := Some (ledgerView w)\<rparr>"
  by (simp add: computeContractSizeUsd_def getLedger_def ensureLoaded_view Let_def)

lemma computeContractSizeUsd_fst:
  "fst (computeContractSizeUsd c w) =
     (let balance = balanceOf c (ledgerView w)
      in if balance \<le> 0 then 0
         else of_int \<lfloor>min (max (minTradeUsd c) (min (maxTradeUsd c)
                (if stakePct c > 0 then balance * stakePct c else cfgContractSize c)))
                  balance * 100\<rfloor> / 100)"
  by (simp add: computeContractSizeUsd_def getLedger_def ensureLoaded_view Let_def)



text \<open>Unfolding the model on concrete inputs.\<close>

lemmas eval_defs = processSignals_def strictRec_def recAction_def resolveSide_def
  indicatorsPopulated_def isTooLateToEnter_def isLowLiquidity_def hasBadSpread_def
  hasLowLiquidity_def isLowVolume_def exceeds_def below_def meetsThresholds_def
  enterTrade_def computeContractSizeUsd_def getLedger_def ensureLoaded_def loadLedger_def
  defaultLedger_def balanceOf_def addTrade_eq afterUpdate_def ledgerView_eq pushTrade_def
  recalculateSummary_def summary_step_def toFixed2_def statusOrOpen_def badEntryPrice_def
  badShares_def openedTrade_def marketSlugOf_def exitBranch_def decideExit_def
  opposingMoreLikely_def stopLossHit_def sharesOf_def closeTrade_eq closedTrade_def
  patchTrade_def flipEntry_def bindE_Inr openTradeAfter_def ledgerAfter_def Let_def

lemmas sample_defs = defaultConfig_def entrySignals_def freshWorld_def sampleTrade_def
  sampleClock_def laterClock_def openLedger_def openWorld_def


subsection \<open>Position sizing\<close>




text \<open>
  A flip entry is sized in the same way, from the ledger as it is after the closing update.
\<close>

lemma flipEntry_sizing:
  assumes "flipEntry c s t clk w = Inr w'" and "openTrade w = None"
    and "openTrade w' = Some f" and "stakePct c > 0"
  shows "\<exists>p. priceOf (polyPrices s) (otherSide (side t)) = Some p \<and> side f = otherSide (side t)
           \<and> entryPrice f = Fin p
           \<and> contractSize f
               = floorCents (claimedNotional c
                   (startingBalance c + totalPnL (summary (ledgerView w))))
           \<and> shares f = Fin (contractSize f / p)"
proof -
  let ?a = "fst (computeContractSizeUsd c w)"
  obtain p where p: "priceOf (polyPrices s) (otherSide (side t)) = Some p"
    and f: "f = openedTrade clk (marketSlugOf s) (otherSide (side t)) p (?a / p) ?a
                  (recPhase (recm s)) None (Some ''Flip'')"
    and pos: "0 < ?a"
    using assms(1,2,3)
    by (auto simp: flipEntry_def Let_def case_prod_beta computeContractSizeUsd_snd addTrade_eq
        bindE_Inr split: option.splits if_splits)
  have bal: "0 < balanceOf c (ledgerView w)"
    using pos by (simp add: computeContractSizeUsd_fst Let_def split: if_splits)
  have "?a = floorCents (claimedNotional c
                   (startingBalance c + totalPnL (summary (ledgerView w))))"
    using bal assms(4)
    by (simp add: computeContractSizeUsd_fst Let_def floorCents_def claimedNotional_def
        clamp_def balanceOf_def)
  then show ?thesis
    using p by (simp add: f openedTrade_def)
qed

subsection \<open>Entry under loose rec gating\<close>




lemma scenarioD:
  "processSignals testConfig testSignals 1 sampleClock freshWorld =
     Inr (freshWorld\<lparr>openTrade :=
              Some (openedTrade sampleClock ''m1'' UP 0.01 10000 100 EARLY (Some True) None),
            currentLedger := Some \<lparr>trades =
              [openedTrade sampleClock ''m1'' UP 0.01 10000 100 EARLY (Some True) None],
              summary = \<lparr>totalTrades = 1, wins = 0, losses = 0, totalPnL = 0, winRate = 0\<rparr>\<rparr>,
            tradesFile := Some \<lparr>trades =
              [openedTrade sampleClock ''m1'' UP 0.01 10000 100 EARLY (Some True) None],
              summary = \<lparr>totalTrades = 1, wins = 0, losses = 0, totalPnL = 0, winRate = 0\<rparr>\<rparr>\<rparr>)"
  by (simp add: eval_defs sample_defs testConfig_def testSignals_def del: not_None_eq)


subsection \<open>Exits\<close>

lemma marketSlugOf_nonempty: "marketSlugOf s \<noteq> []"
  by (simp add: marketSlugOf_def split: option.split)

lemma processSignals_open:
  assumes "enabled c" and "openTrade w = Some t"
    and "resolveSide (strictRec c) s = (Some sd, inferred)"
    and "priceOf (polyPrices s) sd = Some p"
  shows "processSignals c s k clk w = exitBranch c s t (minCandlesForEntry c \<le> k) clk w"
  using assms by (simp add: processSignals_def Let_def)

lemma processSignals_open_cases:
  assumes "openTrade w = Some t"
  shows "processSignals c s k clk w = Inr w
         \<or> processSignals c s k clk w = exitBranch c s t (minCandlesForEntry c \<le> k) clk w"
  using assms
  by (simp add: processSignals_def Let_def split: option.split prod.split)

text \<open>
  C3, as stated, fails: the market has rolled over from m1 to m2, but there is no quote
  for the held side, and the trade stays OPEN; and where the held side has a quote, the
  reason recorded on the closed trade is "Market Rollover".
\<close>

theorem C3_counterexample:
  "openTrade openWorld = Some sampleTrade \<and> status sampleTrade = Some OPEN
   \<and> marketSlug sampleTrade = ''m1'' \<and> marketSlugOf rolloverNoQuote = ''m2''
   \<and> priceOf (polyPrices rolloverNoQuote) (side sampleTrade) = None
   \<and> processSignals defaultConfig rolloverNoQuote 30 laterClock openWorld = Inr openWorld
   \<and> marketSlugOf rolloverSignals = ''m2''
   \<and> map_option (map exitReason \<circ> trades)
        (ledgerAfter (processSignals defaultConfig rolloverSignals 30 laterClock openWorld))
      = Some [Some ''Market Rollover'']"
  by (simp add: eval_defs sample_defs rolloverNoQuote_def rolloverSignals_def del: not_None_eq)

text \<open>
  C3, amended. On a tick that resolves a side with a quote, with a trade OPEN whose market
  identifier differs from the tick's and a quote for the held side, the trade is closed
  with reason "Market Rollover" at that quote and the trader is flat after the tick (no
  reopen), whatever the model probabilities and the other exit settings.
\<close>

theorem C3_rollover_close:
  assumes "enabled c" and "openTrade w = Some t"
    and "marketSlug t \<noteq> []" and "marketSlug t \<noteq> marketSlugOf s"
    and "resolveSide (strictRec c) s = (Some sd, inferred)"
    and "priceOf (polyPrices s) sd = Some p"
    and "priceOf (polyPrices s) (side t) = Some px"
  shows "\<exists>w'. processSignals c s k clk w = Inr w' \<and> openTrade w' = None
           \<and> ledgerView w'
               = patchTrade (tradeId t)
                   (\<lambda>old. closedTrade t px ''Market Rollover'' (nowMs clk)) (ledgerView w)"
proof -
  have "processSignals c s k clk w = closeTrade t px ''Market Rollover'' clk w"
    using assms(3,4,7) marketSlugOf_nonempty [of s]
    by (simp add: processSignals_open [OF assms(1,2,5,6)] exitBranch_def)
  then show ?thesis
    by (simp add: closeTrade_eq afterUpdate_fields ledgerView_eq [of "_\<lparr>openTrade := None\<rparr>"])
qed

theorem C3_rollover_close_witness:
  "\<exists>w'. processSignals defaultConfig rolloverSignals 30 laterClock openWorld = Inr w'
      \<and> openTrade w' = None
      \<and> ledgerView w'
          = \<lparr>trades = [closedTrade sampleTrade 0.10 ''Market Rollover'' (nowMs laterClock)],
             summary = \<lparr>totalTrades = 1, wins = 0, losses = 1, totalPnL = - 50,
                        winRate = 0\<rparr>\<rparr>"
proof -
  have h: "enabled defaultConfig" "openTrade openWorld = Some sampleTrade"
    "marketSlug sampleTrade \<noteq> []" "marketSlug sampleTrade \<noteq> marketSlugOf rolloverSignals"
    "resolveSide (strictRec defaultConfig) rolloverSignals = (Some UP, False)"
    "priceOf (polyPrices rolloverSignals) UP = Some 0.10"
    "priceOf (polyPrices rolloverSignals) (side sampleTrade) = Some 0.10"
    by (simp_all add: eval_defs sample_defs rolloverSignals_def)
  have l: "patchTrade (tradeId sampleTrade)
        (\<lambda>old. closedTrade sampleTrade 0.10 ''Market Rollover'' (nowMs laterClock))
        (ledgerView openWorld)
      = \<lparr>trades = [closedTrade sampleTrade 0.10 ''Market Rollover'' (nowMs laterClock)],
         summary = \<lparr>totalTrades = 1, wins = 0, losses = 1, totalPnL = - 50,
                    winRate = 0\<rparr>\<rparr>"
    by (simp add: eval_defs sample_defs rolloverSignals_def)
  from C3_rollover_close [OF h, of 30 laterClock]
  show ?thesis unfolding l .
qed

text \<open>
  C4, as stated, fails: no probability flip, ten minutes left, and the trade is closed all
  the same, because the market has rolled over.
\<close>

theorem C4_counterexample:
  "openTrade openWorld = Some sampleTrade
   \<and> \<not> opposingMoreLikely defaultConfig rolloverSignals sampleTrade
   \<and> \<not> timeLeftMin rolloverSignals < 0.5
   \<and> openTradeAfter (processSignals defaultConfig rolloverSignals 30 laterClock openWorld) = None
   \<and> map_option (map exitReason \<circ> trades)
        (ledgerAfter (processSignals defaultConfig rolloverSignals 30 laterClock openWorld))
      = Some [Some ''Market Rollover'']"
  by (simp add: eval_defs sample_defs rolloverSignals_def del: not_None_eq)

text \<open>
  C4, amended. With a trade OPEN in the market of the tick, the probability-flip
  condition false and at least half a minute left, the tick changes nothing: the trade
  stays OPEN, whatever its mark-to-market loss.
\<close>

theorem C4_no_stop_loss_alone:
  assumes "openTrade w = Some t"
    and "marketSlug t = [] \<or> marketSlug t = marketSlugOf s"
    and "\<not> opposingMoreLikely c s t" and "\<not> timeLeftMin s < 0.5"
  shows "processSignals c s k clk w = Inr w"
proof -
  have "exitBranch c s t (minCandlesForEntry c \<le> k) clk w = Inr w"
    using assms(2,3,4) by (auto simp: exitBranch_def decideExit_def Let_def)
  then show ?thesis
    using processSignals_open_cases [OF assms(1), of c s k clk] by auto
qed

theorem C4_no_stop_loss_alone_witness:
  "stopLossHit defaultConfig lossSignals sampleTrade
   \<and> sharesOf sampleTrade * 0.10 - contractSize sampleTrade = - 50
   \<and> contractSize sampleTrade * stopLossPct defaultConfig = 20
   \<and> processSignals defaultConfig lossSignals 30 laterClock openWorld = Inr openWorld"
proof -
  have h: "openTrade openWorld = Some sampleTrade"
    "marketSlug sampleTrade = [] \<or> marketSlug sampleTrade = marketSlugOf lossSignals"
    "\<not> opposingMoreLikely defaultConfig lossSignals sampleTrade"
    "\<not> timeLeftMin lossSignals < 0.5"
    by (simp_all add: eval_defs sample_defs lossSignals_def)
  have obs: "stopLossHit defaultConfig lossSignals sampleTrade"
    "sharesOf sampleTrade * 0.10 - contractSize sampleTrade = - 50"
    "contractSize sampleTrade * stopLossPct defaultConfig = 20"
    by (simp_all add: eval_defs sample_defs lossSignals_def)
  from C4_no_stop_loss_alone [OF h, of 30 laterClock] obs
  show ?thesis by simp
qed

lemma findIndex_Some:
  "findIndex P xs = Some i \<Longrightarrow> i < length xs \<and> P (xs ! i)"
proof (induction xs arbitrary: i)
  case Nil
  then show ?case by simp
next
  case (Cons x xs)
  then show ?case
    by (auto split: if_splits simp: nth_Cons')
qed






text \<open>
  C7. The code at two failing inputs. The trade is OPEN, its side has a quote, twelve
  seconds are left, so that the end-of-window rule of the exit branch would close it; but
  the tick returns before the exit branch, in the first case because the recommended side
  has no quote, in the second because under strict gating the recommendation has no side.
\<close>

theorem C7_early_return_blocks_exit:
  "openTrade openWorld = Some sampleTrade
   \<and> priceOf (polyPrices lastSecondsSignals) (side sampleTrade) = Some 0.30
   \<and> timeLeftMin lastSecondsSignals < 0.5
   \<and> exitReasonOf (decideExit defaultConfig lastSecondsSignals sampleTrade True laterClock
        openWorld) = ''End of Candle''
   \<and> openTradeAfter (exitBranch defaultConfig lastSecondsSignals sampleTrade True laterClock
        openWorld) = None
   \<and> processSignals defaultConfig lastSecondsSignals 30 laterClock openWorld = Inr openWorld
   \<and> priceOf (polyPrices noSideSignals) (side sampleTrade) = Some 0.30
   \<and> openTradeAfter (exitBranch strictConfig noSideSignals sampleTrade True laterClock
        openWorld) = None
   \<and> processSignals strictConfig noSideSignals 30 laterClock openWorld = Inr openWorld"
  by (simp add: eval_defs sample_defs lastSecondsSignals_def strictConfig_def
      noSideSignals_def del: not_None_eq)

subsection \<open>At most one OPEN trade\<close>

lemma filter_le_one:
  "distinct (map f xs) \<Longrightarrow> \<forall>x\<in>set xs. P x \<longrightarrow> f x = a \<Longrightarrow> length (filter P xs) \<le> 1"
proof (induction xs)
  case Nil
  then show ?case by simp
next
  case (Cons x xs)
  show ?case
  proof (cases "P x")
    case True
    have "filter P xs = []"
    proof (rule ccontr)
      assume "filter P xs \<noteq> []"
      then obtain y where y: "y \<in> set xs" "P y"
        by (metis filter_False)
      then have "f y = a" "f x = a"
        using Cons.prems(2) True by auto
      then have "f x \<in> f ` set xs"
        using y(1) by force
      then show False
        using Cons.prems(1) by simp
    qed
    then show ?thesis using True by simp
  next
    case False
    then show ?thesis using Cons by simp
  qed
qed

lemma filter_le_one_unique:
  assumes "length (filter P xs) \<le> 1" and "x \<in> set xs" and "P x" and "y \<in> set xs" and "P y"
  shows "x = y"
proof -
  have mem: "x \<in> set (filter P xs)" "y \<in> set (filter P xs)"
    using assms by simp_all
  show ?thesis
  proof (cases "filter P xs")
    case Nil
    then show ?thesis using mem by simp
  next
    case (Cons z zs)
    then have "zs = []" using assms(1) by simp
    then show ?thesis using mem Cons by simp
  qed
qed

lemma findIndex_None: "findIndex P xs = None \<Longrightarrow> \<forall>x\<in>set xs. \<not> P x"
  by (induction xs) (auto split: if_splits)

lemma ledgerOk_count: "ledgerOk l ot \<Longrightarrow> openCount l \<le> 1"
proof (cases ot)
  case None
  assume "ledgerOk l ot"
  then have "filter (\<lambda>t. status t = Some OPEN) (trades l) = []"
    using None by (auto simp: ledgerOk_def filter_empty_conv)
  then show ?thesis by (simp add: openCount_def)
next
  case (Some t)
  assume "ledgerOk l ot"
  then have "distinct (map tradeId (trades l))"
    and "\<forall>x\<in>set (trades l). status x = Some OPEN \<longrightarrow> tradeId x = tradeId t"
    using Some by (auto simp: ledgerOk_def idsOf_def)
  then show ?thesis
    unfolding openCount_def by (rule filter_le_one)
qed

lemma ledgerOk_weaken: "ledgerOk l None \<Longrightarrow> ledgerOk l ot"
  by (auto simp: ledgerOk_def)

lemma patchTrade_ids:
  assumes "tradeId r = i"
  shows "idsOf (patchTrade i (\<lambda>old. r) l) = idsOf l"
proof (cases "findIndex (\<lambda>t. tradeId t = i) (trades l)")
  case None
  then show ?thesis by (simp add: patchTrade_def)
next
  case (Some k)
  then have k: "k < length (trades l)" "tradeId (trades l ! k) = i"
    using findIndex_Some [OF Some] by simp_all
  have "map tradeId ((trades l)[k := r]) = (map tradeId (trades l))[k := i]"
    using assms by (simp add: map_update)
  also have "\<dots> = map tradeId (trades l)"
    using k by (metis list_update_id nth_map)
  finally show ?thesis
    using Some by (simp add: patchTrade_def idsOf_def Let_def)
qed

lemma patchTrade_closes:
  assumes "ledgerOk l (Some t)" and "tradeId r = tradeId t" and "status r \<noteq> Some OPEN"
  shows "ledgerOk (patchTrade (tradeId t) (\<lambda>old. r) l) None"
proof -
  have d: "distinct (map tradeId (trades l))"
    and o: "\<forall>x\<in>set (trades l). status x = Some OPEN \<longrightarrow> tradeId x = tradeId t"
    using assms(1) by (auto simp: ledgerOk_def idsOf_def)
  have ids: "distinct (idsOf (patchTrade (tradeId t) (\<lambda>old. r) l))"
    unfolding patchTrade_ids [OF assms(2)] using d by (simp add: idsOf_def)
  have "\<forall>x\<in>set (trades (patchTrade (tradeId t) (\<lambda>old. r) l)). status x \<noteq> Some OPEN"
  proof (cases "findIndex (\<lambda>x. tradeId x = tradeId t) (trades l)")
    case None
    then show ?thesis
      using o findIndex_None [OF None] by (auto simp: patchTrade_def)
  next
    case (Some k)
    have k: "k < length (trades l)" "tradeId (trades l ! k) = tradeId t"
      using findIndex_Some [OF Some] by simp_all
    have "status x \<noteq> Some OPEN" if mem: "x \<in> set ((trades l)[k := r])" for x
    proof -
      obtain j where j: "j < length (trades l)" "x = ((trades l)[k := r]) ! j"
        using mem by (auto simp: in_set_conv_nth)
      show ?thesis
      proof (cases "j = k")
        case True
        then show ?thesis using j k assms(3) by simp
      next
        case False
        then have x: "x = trades l ! j" using j by simp
        have "map tradeId (trades l) ! j \<noteq> map tradeId (trades l) ! k"
          using nth_eq_iff_index_eq [OF d, of j k] j(1) k(1) False by simp
        then have "tradeId x \<noteq> tradeId t"
          using x j(1) k by simp
        moreover have "x \<in> set (trades l)"
          using x j(1) by simp
        ultimately show ?thesis
          using o by blast
      qed
    qed
    then show ?thesis
      using Some by (simp add: patchTrade_def Let_def)
  qed
  then show ?thesis
    using ids by (auto simp: ledgerOk_def)
qed

lemma pushTrade_ids: "idsOf (pushTrade t l) = idsOf l @ [tradeId t]"
  by (simp add: pushTrade_def idsOf_def Let_def)

lemma pushTrade_ok:
  assumes "ledgerOk l None" and "tradeId t \<notin> set (idsOf l)"
  shows "ledgerOk (pushTrade t l) (Some t)"
proof -
  have none: "\<forall>x\<in>set (trades l). status x \<noteq> Some OPEN"
    using assms(1) by (auto simp: ledgerOk_def)
  have d: "distinct (idsOf (pushTrade t l))"
    using assms by (simp add: pushTrade_ids ledgerOk_def)
  have tr: "trades (pushTrade t l) = trades l @ [t\<lparr>status := Some (statusOrOpen t)\<rparr>]"
    by (simp add: pushTrade_def Let_def)
  have "\<exists>y. Some t = Some y \<and> tradeId y = tradeId x"
    if "x \<in> set (trades (pushTrade t l))" "status x = Some OPEN" for x
    using that none by (auto simp: tr)
  then show ?thesis
    using d unfolding ledgerOk_def by blast
qed

lemma ledgerView_upd:
  "ledgerView (w\<lparr>openTrade := ot\<rparr>) = ledgerView w"
  "ledgerView (w\<lparr>lastFlipAtMs := ms\<rparr>) = ledgerView w"
  "ledgerView (w\<lparr>writable := b\<rparr>) = ledgerView w"
  "ledgerView (w\<lparr>consoleErrors := k\<rparr>) = ledgerView w"
  "ledgerView (w\<lparr>currentLedger := Some l\<rparr>) = l"
  by (simp_all add: ledgerView_eq loadLedger_def split: option.split)

lemma tradesFile_afterUpdate:
  "tradesFile (afterUpdate f w) = (if writable w then Some (f (ledgerView w)) else tradesFile w)"
  by (simp add: afterUpdate_def Let_def)

lemma traderInvI:
  assumes "ledgerOk (ledgerView w') (openTrade w')"
    and "tradesFile w' = tradesFile w \<or> tradesFile w' = Some (ledgerView w')"
    and "fileOk (tradesFile w)"
  shows "traderInv w'"
  using assms ledgerOk_count [OF assms(1)]
  by (auto simp: traderInv_def fileOk_def)

lemma stepOk_same:
  assumes "traderInv w"
  shows "stepOk clk w w" and "stepOk clk w (w\<lparr>currentLedger := Some (ledgerView w)\<rparr>)"
  using assms by (auto simp: stepOk_def traderInv_def ledgerView_upd)

lemma stepOk_closed:
  assumes "traderInv w" and "openTrade w = Some t" and "tradeId r = tradeId t"
    and "status r \<noteq> Some OPEN"
  defines "w' \<equiv> (afterUpdate (patchTrade (tradeId t) (\<lambda>old. r)) w)\<lparr>openTrade := None\<rparr>"
  shows "traderInv w'" and "idsOf (ledgerView w') = idsOf (ledgerView w)"
    and "openTrade w' = None"
proof -
  have lv: "ledgerView w' = patchTrade (tradeId t) (\<lambda>old. r) (ledgerView w)"
    by (simp add: w'_def ledgerView_upd afterUpdate_fields)
  have ok: "ledgerOk (ledgerView w) (Some t)" and f: "fileOk (tradesFile w)"
    using assms(1,2) by (simp_all add: traderInv_def)
  have "ledgerOk (ledgerView w') (openTrade w')"
    using patchTrade_closes [OF ok assms(3,4)] by (simp add: lv) (simp add: w'_def)
  moreover have "tradesFile w' = tradesFile w \<or> tradesFile w' = Some (ledgerView w')"
    by (simp add: lv) (simp add: w'_def tradesFile_afterUpdate)
  ultimately show "traderInv w'"
    using f by (rule traderInvI)
  show "idsOf (ledgerView w') = idsOf (ledgerView w)"
    by (simp add: lv patchTrade_ids [OF assms(3)])
  show "openTrade w' = None"
    by (simp add: w'_def)
qed

lemma stepOk_pushed:
  assumes "traderInv w" and "openTrade w = None" and "tradeId t \<notin> set (idsOf (ledgerView w))"
    and "ledgerView w' = pushTrade t (ledgerView w)" and "openTrade w' = Some t"
    and "tradesFile w' = tradesFile w \<or> tradesFile w' = Some (ledgerView w')"
  shows "traderInv w'" and "idsOf (ledgerView w') = idsOf (ledgerView w) @ [tradeId t]"
proof -
  have ok: "ledgerOk (ledgerView w) None" and f: "fileOk (tradesFile w)"
    using assms(1,2) by (simp_all add: traderInv_def)
  have "ledgerOk (ledgerView w') (openTrade w')"
    using pushTrade_ok [OF ok assms(3)] by (simp add: assms(4,5))
  then show "traderInv w'"
    using assms(6) f by (rule traderInvI)
  show "idsOf (ledgerView w') = idsOf (ledgerView w) @ [tradeId t]"
    by (simp add: assms(4) pushTrade_ids)
qed

lemma stepOk_held:
  assumes "traderInv w" and "openTrade w = None"
  shows "traderInv (w\<lparr>currentLedger := Some (ledgerView w), openTrade := Some t\<rparr>)"
proof -
  have ok: "ledgerOk (ledgerView w) None" and f: "fileOk (tradesFile w)"
    using assms by (simp_all add: traderInv_def)
  show ?thesis
    using ledgerOk_weaken [OF ok, of "Some t"] f
    by (simp add: traderInv_def ledgerView_upd)
qed

lemma openedTrade_id: "tradeId (openedTrade clk m sd p sh amount ph i r) = freshId clk"
  by (simp add: openedTrade_def)

lemma enterTrade_inv:
  assumes "traderInv w" and "openTrade w = None"
    and "freshId clk \<notin> set (idsOf (ledgerView w))"
  shows "\<exists>w'. enterTrade c s sd inferred p clk w = Inr w' \<and> stepOk clk w w'"
proof -
  let ?w1 = "w\<lparr>currentLedger := Some (ledgerView w)\<rparr>"
  let ?n = "fst (computeContractSizeUsd c w)"
  let ?t = "openedTrade clk (marketSlugOf s) sd p (?n / p) ?n (recPhase (recm s))
              (Some inferred) None"
  let ?w2 = "afterUpdate (pushTrade ?t) (?w1\<lparr>openTrade := Some ?t\<rparr>)"
  have a: "stepOk clk w w" "stepOk clk w ?w1"
    using stepOk_same [OF assms(1)] by simp_all
  have b: "stepOk clk w (?w1\<lparr>openTrade := Some ?t\<rparr>)"
    using stepOk_held [OF assms(1,2), of ?t]
    by (auto simp: stepOk_def ledgerView_upd)
  have fresh: "tradeId ?t \<notin> set (idsOf (ledgerView w))"
    using assms(3) by (simp add: openedTrade_id)
  have "traderInv ?w2" and "idsOf (ledgerView ?w2) = idsOf (ledgerView w) @ [tradeId ?t]"
    by (rule stepOk_pushed [OF assms(1,2) fresh];
        simp add: afterUpdate_fields ledgerView_upd tradesFile_afterUpdate)+
  then have c: "stepOk clk w ?w2"
    by (auto simp: stepOk_def openedTrade_id)
  have "enterTrade c s sd inferred p clk w \<in>
      {Inr w, Inr ?w1, Inr (?w1\<lparr>openTrade := Some ?t\<rparr>), Inr ?w2}"
    by (simp add: enterTrade_def Let_def case_prod_beta computeContractSizeUsd_snd addTrade_eq)
  then show ?thesis
    using a b c by auto
qed

lemma flipEntry_inv:
  assumes "traderInv w" and "openTrade w = None"
    and "freshId clk \<notin> set (idsOf (ledgerView w))"
  shows "\<exists>w'. flipEntry c s t clk w = Inr w' \<and> stepOk clk w w'"
proof -
  let ?w1 = "w\<lparr>currentLedger := Some (ledgerView w)\<rparr>"
  let ?n = "fst (computeContractSizeUsd c w)"
  let ?p = "the (priceOf (polyPrices s) (otherSide (side t)))"
  let ?f = "openedTrade clk (marketSlugOf s) (otherSide (side t)) ?p (?n / ?p) ?n
              (recPhase (recm s)) None (Some ''Flip'')"
  let ?w2 = "(afterUpdate (pushTrade ?f) ?w1)\<lparr>openTrade := Some ?f, lastFlipAtMs := nowMs clk\<rparr>"
  let ?w3 = "?w1\<lparr>openTrade := Some ?f, lastFlipAtMs := nowMs clk\<rparr>"
  have a: "stepOk clk w w" "stepOk clk w ?w1"
    using stepOk_same [OF assms(1)] by simp_all
  have b: "stepOk clk w ?w3"
    using stepOk_held [OF assms(1,2), of ?f]
    by (auto simp: stepOk_def traderInv_def ledgerView_upd)
  have fresh: "tradeId ?f \<notin> set (idsOf (ledgerView w))"
    using assms(3) by (simp add: openedTrade_id)
  have "traderInv ?w2" and "idsOf (ledgerView ?w2) = idsOf (ledgerView w) @ [tradeId ?f]"
    by (rule stepOk_pushed [OF assms(1,2) fresh];
        simp add: afterUpdate_fields ledgerView_upd tradesFile_afterUpdate)+
  then have c: "stepOk clk w ?w2"
    by (auto simp: stepOk_def openedTrade_id)
  have "flipEntry c s t clk w \<in> {Inr w, Inr ?w1, Inr ?w3, Inr ?w2}"
    by (simp add: flipEntry_def Let_def case_prod_beta computeContractSizeUsd_snd addTrade_eq
        bindE_Inr split: option.split)
  then show ?thesis
    using a b c by auto
qed

lemma closeTrade_inv:
  assumes "traderInv w" and "openTrade w = Some t"
  shows "\<exists>w1. closeTrade t px reason clk w = Inr w1 \<and> traderInv w1
           \<and> idsOf (ledgerView w1) = idsOf (ledgerView w) \<and> openTrade w1 = None"
proof -
  have r: "tradeId (closedTrade t px reason (nowMs clk)) = tradeId t"
    "status (closedTrade t px reason (nowMs clk)) \<noteq> Some OPEN"
    by (simp_all add: closedTrade_def Let_def)
  show ?thesis
    using stepOk_closed [OF assms r] by (simp add: closeTrade_eq)
qed

lemma exitBranch_inv:
  assumes "traderInv w" and "openTrade w = Some t"
    and "freshId clk \<notin> set (idsOf (ledgerView w))"
  shows "\<exists>w'. exitBranch c s t b clk w = Inr w' \<and> stepOk clk w w'"
proof -
  have same: "stepOk clk w w"
    using stepOk_same(1) [OF assms(1)] .
  have closed: "\<exists>w'. closeTrade t px reason clk w = Inr w' \<and> stepOk clk w w'" for px reason
    using closeTrade_inv [OF assms(1,2), of px reason clk] by (auto simp: stepOk_def)
  have flipped: "\<exists>w'. bindE (closeTrade t px reason clk w) (\<lambda>w1. flipEntry c s t clk w1) = Inr w'
      \<and> stepOk clk w w'" for px reason
  proof -
    obtain w1 where w1: "closeTrade t px reason clk w = Inr w1" "traderInv w1"
      "idsOf (ledgerView w1) = idsOf (ledgerView w)" "openTrade w1 = None"
      using closeTrade_inv [OF assms(1,2), of px reason clk] by blast
    have "freshId clk \<notin> set (idsOf (ledgerView w1))"
      using assms(3) w1(3) by simp
    then obtain w2 where w2: "flipEntry c s t clk w1 = Inr w2" "stepOk clk w1 w2"
      using flipEntry_inv [OF w1(2,4), of clk c s t] by blast
    have "stepOk clk w w2"
      using w2(2) w1(3) by (simp add: stepOk_def)
    then show ?thesis
      using w1(1) w2(1) by (simp add: bindE_Inr)
  qed
  have plain: "\<exists>w'. bindE (closeTrade t px reason clk w) Inr = Inr w' \<and> stepOk clk w w'"
    for px reason
    using closed [of px reason] by (auto simp: bindE_Inr)
  show ?thesis
    unfolding exitBranch_def Let_def
    using same closed flipped plain
    by (cases "shouldFlip (decideExit c s t b clk w)") (simp_all split: option.split)
qed

lemma processSignals_inv:
  assumes "traderInv w" and "freshId clk \<notin> set (idsOf (ledgerView w))"
  shows "\<exists>w'. processSignals c s k clk w = Inr w' \<and> stepOk clk w w'"
proof -
  have same: "stepOk clk w w"
    using stepOk_same(1) [OF assms(1)] .
  have enter: "openTrade w = None \<Longrightarrow>
      \<exists>w'. enterTrade c s sd inferred p clk w = Inr w' \<and> stepOk clk w w'" for sd inferred p
    using enterTrade_inv [OF assms(1) _ assms(2)] by blast
  have leave: "openTrade w = Some t \<Longrightarrow>
      \<exists>w'. exitBranch c s t b clk w = Inr w' \<and> stepOk clk w w'" for t b
    using exitBranch_inv [OF assms(1) _ assms(2)] by blast
  show ?thesis
    unfolding processSignals_def Let_def
    using same enter leave
    by (auto split: option.split prod.split)
qed

lemma writable_inv: "traderInv (w\<lparr>writable := b\<rparr>) = traderInv w"
  by (simp add: traderInv_def ledgerView_upd)

lemma runTicks_inv:
  assumes "traderInv w" and "distinct (map (\<lambda>x. freshId (tickClock x)) ticks)"
    and "set (map (\<lambda>x. freshId (tickClock x)) ticks) \<inter> set (idsOf (ledgerView w)) = {}"
  shows "\<exists>w'. runTicks c ticks w = Inr w' \<and> traderInv w'"
  using assms
proof (induction ticks arbitrary: w)
  case Nil
  then show ?case by simp
next
  case (Cons x xs)
  let ?w0 = "w\<lparr>writable := tickWritable x\<rparr>"
  have inv0: "traderInv ?w0"
    using Cons.prems(1) by (simp add: writable_inv)
  have fresh: "freshId (tickClock x) \<notin> set (idsOf (ledgerView ?w0))"
    using Cons.prems(3) by (simp add: ledgerView_upd)
  obtain w1 where w1: "processSignals c (tickSignals x) (tickCandles x) (tickClock x) ?w0 = Inr w1"
    and ok: "stepOk (tickClock x) ?w0 w1"
    using processSignals_inv [OF inv0 fresh] by blast
  have inv1: "traderInv w1"
    and sub: "set (idsOf (ledgerView w1))
              \<subseteq> insert (freshId (tickClock x)) (set (idsOf (ledgerView w)))"
    using ok by (simp_all add: stepOk_def ledgerView_upd)
  have d: "distinct (map (\<lambda>x. freshId (tickClock x)) xs)"
    using Cons.prems(2) by simp
  have disj: "set (map (\<lambda>x. freshId (tickClock x)) xs) \<inter> set (idsOf (ledgerView w1)) = {}"
  proof -
    have "y \<notin> set (idsOf (ledgerView w1))"
      if y: "y \<in> set (map (\<lambda>x. freshId (tickClock x)) xs)" for y
    proof -
      have "freshId (tickClock x) \<notin> set (map (\<lambda>x. freshId (tickClock x)) xs)"
        using Cons.prems(2) by simp
      then have "y \<noteq> freshId (tickClock x)"
        using y by blast
      moreover have "y \<in> set (map (\<lambda>x. freshId (tickClock x)) (x # xs))"
        using y by simp
      then have "y \<notin> set (idsOf (ledgerView w))"
        using Cons.prems(3) by blast
      ultimately show ?thesis
        using sub by blast
    qed
    then show ?thesis by blast
  qed
  obtain w' where "runTicks c xs w1 = Inr w'" "traderInv w'"
    using Cons.IH [OF inv1 d disj] by blast
  then show ?case
    using w1 by (simp add: bindE_Inr)
qed

lemma find_Some_mem: "find P xs = Some x \<Longrightarrow> x \<in> set xs \<and> P x"
  by (induction xs) (auto split: if_splits)

lemma initialize_inv:
  assumes "distinct (idsOf (ledgerView w))" and "openCount (ledgerView w) \<le> 1"
    and "fileOk (tradesFile w)"
  shows "\<exists>w'. initialize now w = Inr w' \<and> traderInv w'
           \<and> idsOf (ledgerView w') = idsOf (ledgerView w)"
proof -
  let ?l = "ledgerView w"
  let ?ot = "find (\<lambda>t. status t = Some OPEN) (trades ?l)"
  let ?w2 = "w\<lparr>currentLedger := Some ?l, openTrade := ?ot\<rparr>"
  have ok: "ledgerOk ?l ?ot"
  proof (cases ?ot)
    case None
    then show ?thesis
      using assms(1) by (auto simp: ledgerOk_def find_None_iff)
  next
    case (Some t)
    have t: "t \<in> set (trades ?l)" "status t = Some OPEN"
      using find_Some_mem [OF Some] by simp_all
    have "x = t" if "x \<in> set (trades ?l)" "status x = Some OPEN" for x
      using filter_le_one_unique [of "\<lambda>t. status t = Some OPEN" "trades ?l" x t]
        assms(2) that t by (simp add: openCount_def)
    then show ?thesis
      using assms(1) Some by (auto simp: ledgerOk_def)
  qed
  have inv2: "traderInv ?w2"
    using ok assms(3) by (simp add: traderInv_def ledgerView_upd)
  have ids2: "idsOf (ledgerView ?w2) = idsOf ?l"
    by (simp add: ledgerView_upd)
  have start: "initialize now w =
      (case ?ot of
         None \<Rightarrow> Inr ?w2
       | Some t \<Rightarrow>
           if badEntryPrice (entryPrice t) \<or> badShares (shares t)
           then Inr ((afterUpdate (patchTrade (tradeId t) (\<lambda>old. forcedClose now t)) ?w2)
                       \<lparr>openTrade := None\<rparr>)
           else Inr ?w2)"
    by (simp add: initialize_def ledgerGetOpenTrade_def ensureLoaded_view Let_def
        updateTrade_eq bindE_Inr split: option.split)
  show ?thesis
  proof (cases ?ot)
    case None
    then show ?thesis using start inv2 ids2 by simp
  next
    case (Some t)
    have o2: "openTrade ?w2 = Some t"
      using Some by simp
    have r: "tradeId (forcedClose now t) = tradeId t" "status (forcedClose now t) \<noteq> Some OPEN"
      by (simp_all add: forcedClose_def)
    show ?thesis
      using start Some inv2 ids2 stepOk_closed(1,2) [OF inv2 o2 r]
      by (simp split: if_splits)
  qed
qed

lemma initializeLedger_inv:
  assumes "distinct (idsOf (ledgerView w))" and "openCount (ledgerView w) \<le> 1"
    and "fileOk (tradesFile w)"
  shows "\<exists>w1. initializeLedger w = Inr w1 \<and> distinct (idsOf (ledgerView w1))
           \<and> openCount (ledgerView w1) \<le> 1 \<and> fileOk (tradesFile w1)
           \<and> idsOf (ledgerView w1) = idsOf (ledgerView w)"
  using assms
  by (auto simp: initializeLedger_def saveLedger_eq Let_def ledgerView_eq loadLedger_def
      idsOf_def openCount_def fileOk_def split: option.split)

text \<open>
  C6, as stated, fails for the ledger's append: appending a valid OPEN trade to a ledger
  that already holds an OPEN trade gives a ledger with two OPEN trades.
\<close>

theorem C6_counterexample:
  "openCount (ledgerView openWorld) = 1
   \<and> status secondTrade = Some OPEN
   \<and> map_option openCount (ledgerAfter (addTrade secondTrade openWorld)) = Some 2"
  by (simp add: eval_defs sample_defs secondTrade_def openCount_def)

text \<open>
  C6, amended. In a session (ledger initialisation, trader initialisation, then any
  sequence of ticks, with or without write failures), starting from a ledger with distinct
  trade ids and at most one OPEN trade, in the cache and in the file, and with trade ids
  that are fresh, the cached ledger and the file hold at most one OPEN trade after the
  session; the ticks being arbitrary, this holds after every tick.
\<close>

theorem C6_session_one_open:
  assumes "distinct (idsOf (ledgerView w))" and "openCount (ledgerView w) \<le> 1"
    and "fileOk (tradesFile w)"
    and "distinct (map (\<lambda>x. freshId (tickClock x)) ticks)"
    and "set (map (\<lambda>x. freshId (tickClock x)) ticks) \<inter> set (idsOf (ledgerView w)) = {}"
  shows "\<exists>w'. startApp c now ticks w = Inr w' \<and> openCount (ledgerView w') \<le> 1
           \<and> fileOk (tradesFile w')"
proof -
  obtain w1 where w1: "initializeLedger w = Inr w1" "distinct (idsOf (ledgerView w1))"
    "openCount (ledgerView w1) \<le> 1" "fileOk (tradesFile w1)"
    "idsOf (ledgerView w1) = idsOf (ledgerView w)"
    using initializeLedger_inv [OF assms(1,2,3)] by blast
  let ?w1 = "w1\<lparr>openTrade := None, lastFlipAtMs := 0\<rparr>"
  have pre: "distinct (idsOf (ledgerView ?w1))" "openCount (ledgerView ?w1) \<le> 1"
    "fileOk (tradesFile ?w1)"
    using w1(2,3,4) by (simp_all add: ledgerView_upd)
  obtain w2 where w2: "initialize now ?w1 = Inr w2" "traderInv w2"
    "idsOf (ledgerView w2) = idsOf (ledgerView ?w1)"
    using initialize_inv [OF pre] by blast
  have disj: "set (map (\<lambda>x. freshId (tickClock x)) ticks) \<inter> set (idsOf (ledgerView w2)) = {}"
    using assms(5) w1(5) w2(3) by (simp add: ledgerView_upd)
  obtain w' where w': "runTicks c ticks w2 = Inr w'" "traderInv w'"
    using runTicks_inv [OF w2(2) assms(4) disj] by blast
  have "startApp c now ticks w = Inr w'"
    using w1(1) w2(1) w'(1) by (simp add: startApp_def bindE_Inr)
  moreover have "openCount (ledgerView w') \<le> 1" "fileOk (tradesFile w')"
    using w'(2) ledgerOk_count by (auto simp: traderInv_def)
  ultimately show ?thesis by blast
qed

lemma session_run:
  "map_option (map status \<circ> trades)
     (ledgerAfter (startApp flipConfig 1769999999000 sessionTicks freshWorld))
   = Some [Some CLOSED, Some OPEN]"
  by (simp add: eval_defs sample_defs flipConfig_def flipSignals_def sessionTicks_def startApp_def initializeLedger_def
      saveLedger_eq initialize_def ledgerGetOpenTrade_def del: not_None_eq)

theorem C6_session_one_open_witness:
  "\<exists>w'. startApp flipConfig 1769999999000 sessionTicks freshWorld = Inr w'
      \<and> openCount (ledgerView w') \<le> 1 \<and> fileOk (tradesFile w')"
proof -
  have h: "distinct (idsOf (ledgerView freshWorld))" "openCount (ledgerView freshWorld) \<le> 1"
    "fileOk (tradesFile freshWorld)"
    "distinct (map (\<lambda>x. freshId (tickClock x)) sessionTicks)"
    "set (map (\<lambda>x. freshId (tickClock x)) sessionTicks) \<inter> set (idsOf (ledgerView freshWorld))
       = {}"
    by (simp_all add: eval_defs sample_defs sessionTicks_def idsOf_def openCount_def fileOk_def)
  from C6_session_one_open [OF h]
  show ?thesis .
qed

subsection \<open>The older revision of the Trader\<close>

text \<open>
  What the older revision does where the claims are concerned: it returns early in the
  same way, and also during warm-up; it enters only on ENTER with the side of the
  recommendation and the fixed notional; it keeps a trade OPEN unless the probability
  flips or the window ends, whatever the market identifier; it keeps the session
  invariant.
\<close>

lemmas legacy_defs = processSignalsLegacy_def enterTradeLegacy_def exitBranchLegacy_def
  decideExitLegacy_def

lemma legacy_early_return:
  "processSignalsLegacy defaultConfig lastSecondsSignals 30 laterClock openWorld = Inr openWorld
   \<and> processSignalsLegacy defaultConfig noSideSignals 30 laterClock openWorld = Inr openWorld
   \<and> openTradeAfter (exitBranchLegacy defaultConfig noSideSignals sampleTrade laterClock
        openWorld) = None"
  by (simp add: legacy_defs eval_defs sample_defs lastSecondsSignals_def
      noSideSignals_def del: not_None_eq)

lemma legacy_warmup_return:
  "openTradeAfter (exitBranchLegacy defaultConfig (flipSignals 0.15) sampleTrade laterClock
     openWorld) = None
   \<and> processSignalsLegacy defaultConfig (flipSignals 0.15) 29 laterClock openWorld
       = Inr openWorld"
  by (simp add: legacy_defs eval_defs sample_defs flipSignals_def del: not_None_eq)

lemma legacy_entry:
  assumes "openTrade w = None" and "processSignalsLegacy c s k clk w = Inr w'"
    and "openTrade w' = Some t"
  shows "action (recm s) = ''ENTER'' \<and> recSide (recm s) = Some (side t)
         \<and> sideInferred t = None \<and> contractSize t = cfgContractSize c
         \<and> (\<exists>p. priceOf (polyPrices s) (side t) = Some p \<and> entryPrice t = Fin p
                \<and> shares t = Fin (cfgContractSize c / p))"
  using assms
  by (auto simp: legacy_defs Let_def addTrade_eq afterUpdate_fields openedTrade_def
      split: if_splits option.splits)

lemma legacy_stays_open:
  assumes "openTrade w = Some t" and "\<not> opposingMoreLikely c s t"
    and "\<not> timeLeftMin s < 0.5"
  shows "processSignalsLegacy c s k clk w = Inr w"
  using assms
  by (simp add: legacy_defs Let_def split: option.split)

lemma legacy_flip_exit:
  assumes "enabled c" and "openTrade w = Some t" and "minCandlesForEntry c \<le> k"
    and "recSide (recm s) = Some sd" and "priceOf (polyPrices s) sd = Some p"
    and "priceOf (polyPrices s) (side t) = Some px" and "opposingMoreLikely c s t"
  shows "processSignalsLegacy c s k clk w = closeTrade t px ''Probability Flip'' clk w"
  using assms by (simp add: legacy_defs Let_def)

lemma enterTradeLegacy_inv:
  assumes "traderInv w" and "openTrade w = None"
    and "freshId clk \<notin> set (idsOf (ledgerView w))"
  shows "\<exists>w'. enterTradeLegacy c s sd p clk w = Inr w' \<and> stepOk clk w w'"
proof -
  let ?t = "openedTrade clk (marketSlugOf s) sd p (cfgContractSize c / p) (cfgContractSize c)
              (recPhase (recm s)) None None"
  let ?w2 = "afterUpdate (pushTrade ?t) (w\<lparr>openTrade := Some ?t\<rparr>)"
  have a: "stepOk clk w w"
    using stepOk_same(1) [OF assms(1)] .
  have b: "stepOk clk w (w\<lparr>openTrade := Some ?t\<rparr>)"
    using assms(1,2) ledgerOk_weaken [of "ledgerView w" "Some ?t"]
    by (auto simp: stepOk_def traderInv_def ledgerView_upd)
  have fresh: "tradeId ?t \<notin> set (idsOf (ledgerView w))"
    using assms(3) by (simp add: openedTrade_id)
  have "traderInv ?w2" and "idsOf (ledgerView ?w2) = idsOf (ledgerView w) @ [tradeId ?t]"
    by (rule stepOk_pushed [OF assms(1,2) fresh];
        simp add: afterUpdate_fields ledgerView_upd tradesFile_afterUpdate)+
  then have c: "stepOk clk w ?w2"
    by (auto simp: stepOk_def openedTrade_id)
  have "enterTradeLegacy c s sd p clk w \<in> {Inr w, Inr (w\<lparr>openTrade := Some ?t\<rparr>), Inr ?w2}"
    by (simp add: enterTradeLegacy_def Let_def addTrade_eq)
  then show ?thesis
    using a b c by auto
qed

lemma processSignalsLegacy_inv:
  assumes "traderInv w" and "freshId clk \<notin> set (idsOf (ledgerView w))"
  shows "\<exists>w'. processSignalsLegacy c s k clk w = Inr w' \<and> stepOk clk w w'"
proof -
  have same: "stepOk clk w w"
    using stepOk_same(1) [OF assms(1)] .
  have enter: "openTrade w = None \<Longrightarrow>
      \<exists>w'. enterTradeLegacy c s sd p clk w = Inr w' \<and> stepOk clk w w'" for sd p
    using enterTradeLegacy_inv [OF assms(1) _ assms(2)] by blast
  have leave: "\<exists>w'. exitBranchLegacy c s t clk w = Inr w' \<and> stepOk clk w w'"
    if o: "openTrade w = Some t" for t
  proof -
    have "\<exists>w'. closeTrade t px reason clk w = Inr w' \<and> stepOk clk w w'" for px reason
      using closeTrade_inv [OF assms(1) o, of px reason clk] by (auto simp: stepOk_def)
    then show ?thesis
      using same by (simp add: exitBranchLegacy_def Let_def split: option.split)
  qed
  show ?thesis
    unfolding processSignalsLegacy_def Let_def
    using same enter leave
    by (auto split: option.split)
qed

end
